theory Spec2Isabelle
  imports Complex_Main "HOL-Library.Log_Nat"
begin

section \<open>Python values, exceptions and truthiness\<close>

text \<open>
  The handlers of \<^verbatim>\<open>app.py\<close> work on dynamically typed values: what
  \<^verbatim>\<open>request.get_json()\<close> parsed, and what the service objects return. A float is
  the rational it denotes, or one of the three special values (Python's parser accepts
  the tokens \<^verbatim>\<open>NaN\<close>, \<^verbatim>\<open>Infinity\<close> and \<^verbatim>\<open>-Infinity\<close>); the sign of a zero
  is not represented. A dict keeps its items as an association list, read with
  \<^const>\<open>map_of\<close>. The messages of the built-in exceptions are those of CPython 3.11.
\<close>

datatype pyfloat = Finite rat | PosInf | NegInf | NaN

datatype pyval =
    PNone
  | PBool bool
  | PInt int
  | PFloat pyfloat
  | PStr string
  | PList "pyval list"
  | PDict "(string \<times> pyval) list"

datatype exn =
    AttributeError string
  | TypeError string
  | KeyError string
  | ValueError string
  | ZeroDivisionError string
  | OverflowError string
  | ServiceError string

definition quoted :: "string \<Rightarrow> string" where
  "quoted s = CHR 0x27 # s @ [CHR 0x27]"

text \<open>\<^verbatim>\<open>str(e)\<close>: the message; for a \<^verbatim>\<open>KeyError\<close> the repr of the key.\<close>

fun str_exn :: "exn \<Rightarrow> string" where
  "str_exn (AttributeError m) = m"
| "str_exn (TypeError m) = m"
| "str_exn (KeyError k) = quoted k"
| "str_exn (ValueError m) = m"
| "str_exn (ZeroDivisionError m) = m"
| "str_exn (OverflowError m) = m"
| "str_exn (ServiceError m) = m"

fun type_name :: "pyval \<Rightarrow> string" where
  "type_name PNone = ''NoneType''"
| "type_name (PBool b) = ''bool''"
| "type_name (PInt i) = ''int''"
| "type_name (PFloat x) = ''float''"
| "type_name (PStr s) = ''str''"
| "type_name (PList xs) = ''list''"
| "type_name (PDict kvs) = ''dict''"

text \<open>What \<^verbatim>\<open>if v:\<close> and \<^verbatim>\<open>not v\<close> test.\<close>

fun truthy :: "pyval \<Rightarrow> bool" where
  "truthy PNone = False"
| "truthy (PBool b) = b"
| "truthy (PInt i) = (i \<noteq> 0)"
| "truthy (PFloat x) = (x \<noteq> Finite 0)"
| "truthy (PStr s) = (s \<noteq> [])"
| "truthy (PList xs) = (xs \<noteq> [])"
| "truthy (PDict kvs) = (kvs \<noteq> [])"

text \<open>
  \<^verbatim>\<open>d.get(k, default)\<close>. The attribute \<^verbatim>\<open>get\<close> is looked up before the default
  is evaluated, so a value that is not a dict raises first; \<open>dflt\<close> is what
  evaluating the default gave.
\<close>

fun py_get :: "pyval \<Rightarrow> string \<Rightarrow> exn + pyval \<Rightarrow> exn + pyval" where
  "py_get (PDict kvs) k dflt =
     (case dflt of
        Inl e \<Rightarrow> Inl e
      | Inr v \<Rightarrow> Inr (case map_of kvs k of None \<Rightarrow> v | Some x \<Rightarrow> x))"
| "py_get d k dflt =
     Inl (AttributeError (quoted (type_name d) @ '' object has no attribute '' @ quoted ''get''))"

text \<open>\<^verbatim>\<open>d[k]\<close> for a string key \<open>k\<close>.\<close>

fun py_subscript :: "pyval \<Rightarrow> string \<Rightarrow> exn + pyval" where
  "py_subscript (PDict kvs) k =
     (case map_of kvs k of None \<Rightarrow> Inl (KeyError k) | Some x \<Rightarrow> Inr x)"
| "py_subscript (PStr s) k =
     Inl (TypeError (''string indices must be integers, not '' @ quoted ''str''))"
| "py_subscript (PList xs) k =
     Inl (TypeError ''list indices must be integers or slices, not str'')"
| "py_subscript d k =
     Inl (TypeError (quoted (type_name d) @ '' object is not subscriptable''))"

text \<open>
  \<^verbatim>\<open>v < n\<close> for an int \<open>n\<close>: a bool counts as 0 or 1, a float is compared exactly,
  every comparison with NaN is false, and any other type raises.
\<close>

fun float_lt_int :: "pyfloat \<Rightarrow> int \<Rightarrow> bool" where
  "float_lt_int (Finite q) n = (q < of_int n)"
| "float_lt_int NegInf n = True"
| "float_lt_int PosInf n = False"
| "float_lt_int NaN n = False"

fun py_lt_int :: "pyval \<Rightarrow> int \<Rightarrow> exn + bool" where
  "py_lt_int (PBool b) n = Inr ((if b then 1 else 0) < n)"
| "py_lt_int (PInt i) n = Inr (i < n)"
| "py_lt_int (PFloat x) n = Inr (float_lt_int x n)"
| "py_lt_int v n =
     Inl (TypeError (quoted ''<'' @ '' not supported between instances of ''
            @ quoted (type_name v) @ '' and '' @ quoted ''int''))"

fun float_ge_int :: "pyfloat \<Rightarrow> int \<Rightarrow> bool" where
  "float_ge_int (Finite q) n = (of_int n \<le> q)"
| "float_ge_int NegInf n = False"
| "float_ge_int PosInf n = True"
| "float_ge_int NaN n = False"

text \<open>\<^verbatim>\<open>v >= n\<close>, the comparison the specification words the threshold with.\<close>

fun py_ge_int :: "pyval \<Rightarrow> int \<Rightarrow> exn + bool" where
  "py_ge_int (PBool b) n = Inr (n \<le> (if b then 1 else 0))"
| "py_ge_int (PInt i) n = Inr (n \<le> i)"
| "py_ge_int (PFloat x) n = Inr (float_ge_int x n)"
| "py_ge_int v n =
     Inl (TypeError (quoted ''>='' @ '' not supported between instances of ''
            @ quoted (type_name v) @ '' and '' @ quoted ''int''))"

section \<open>Collaborators, their calls, and the request\<close>

text \<open>
  \<^verbatim>\<open>firebase_service\<close>, \<^verbatim>\<open>supabase_service\<close> and \<^verbatim>\<open>face_service\<close> are used by
  \<^verbatim>\<open>app.py\<close> and defined elsewhere, so every method is a parameter: a function from
  its arguments to what the call returns (\<open>Inr\<close>) or raises (\<open>Inl\<close>). No handler calls
  one method twice in a request. The two methods whose result is unpacked return a
  pair; the quality check returns a bool and a string, the types the specification
  gives it. A \<open>call\<close> records that a method was invoked, with its arguments; a
  handler's result carries the list of its calls in order.
\<close>

record datetime =
  ordinal :: nat
  hour :: nat
  minute :: nat
  second :: nat
  microsecond :: nat
  utcoffset :: "int option"

datatype date_filter = NoDate | RawDate string | Date datetime

datatype call =
    VerifyToken string
  | GetUserData pyval
  | ValidateFaceQuality pyval
  | EncodeFace pyval
  | SaveFaceEncoding pyval pyval pyval
  | UploadImage pyval pyval string
  | GetFaceEncoding pyval bool
  | CompareFaces pyval pyval
  | MarkAttendance pyval pyval pyval
  | GetAttendanceRecords date_filter date_filter
  | GetAllUsers

record services =
  fb_verify_token :: "string \<Rightarrow> exn + pyval"
  sb_get_user_data :: "pyval \<Rightarrow> exn + pyval"
  fs_validate_face_quality :: "pyval \<Rightarrow> exn + (bool \<times> string)"
  fs_encode_face_from_base64 :: "pyval \<Rightarrow> exn + (pyval \<times> pyval)"
  fs_compare_faces :: "pyval \<Rightarrow> pyval \<Rightarrow> exn + pyval"
  fb_save_face_encoding :: "pyval \<Rightarrow> pyval \<Rightarrow> pyval \<Rightarrow> exn + pyval"
  fb_upload_image :: "pyval \<Rightarrow> pyval \<Rightarrow> string \<Rightarrow> exn + pyval"
  fb_get_face_encoding :: "pyval \<Rightarrow> bool \<Rightarrow> exn + pyval"
  fb_mark_attendance :: "pyval \<Rightarrow> pyval \<Rightarrow> pyval \<Rightarrow> exn + pyval"
  fb_get_attendance_records :: "date_filter \<Rightarrow> date_filter \<Rightarrow> exn + pyval"
  fb_get_all_users :: "exn + pyval"

text \<open>
  The request as the handlers read it: the \<^verbatim>\<open>Authorization\<close> header if there is
  one, what \<^verbatim>\<open>request.get_json()\<close> returns or raises, the query arguments, and the
  two attributes the decorators set (unset on arrival).
\<close>

record request =
  authorization :: "string option"
  get_json :: "exn + pyval"
  args :: "(string \<times> string) list"
  user_id :: "pyval option"
  user_email :: "pyval option"

definition request_user_id :: "request \<Rightarrow> exn + pyval" where
  "request_user_id req =
     (case user_id req of
        None \<Rightarrow> Inl (AttributeError (quoted ''Request'' @ '' object has no attribute ''
                      @ quoted ''user_id''))
      | Some v \<Rightarrow> Inr v)"

text \<open>A response is the pair a view returns: the JSON body and the status.\<close>

type_synonym response = "pyval \<times> nat"

definition jsonify :: "(string \<times> pyval) list \<Rightarrow> pyval" where
  "jsonify items = PDict items"

definition ok :: "pyval \<Rightarrow> response" where
  "ok body = (body, 200)"

definition error_body :: "string \<Rightarrow> pyval" where
  "error_body msg = jsonify [(''success'', PBool False), (''error'', PStr msg)]"

section \<open>Computations that call collaborators and may raise\<close>

type_synonym 'a io = "(exn + 'a) \<times> call list"

definition pure_io :: "'a \<Rightarrow> 'a io" where
  "pure_io x = (Inr x, [])"

definition lift :: "exn + 'a \<Rightarrow> 'a io" where
  "lift r = (r, [])"

definition invoke :: "call \<Rightarrow> exn + 'a \<Rightarrow> 'a io" where
  "invoke c r = (r, [c])"

definition bnd :: "'a io \<Rightarrow> ('a \<Rightarrow> 'b io) \<Rightarrow> 'b io" where
  "bnd m k =
     (case m of
        (Inl e, t) \<Rightarrow> (Inl e, t)
      | (Inr x, t) \<Rightarrow> (case k x of (r, t') \<Rightarrow> (r, t @ t')))"

text \<open>
  \<^verbatim>\<open>try: ... except Exception as e: return jsonify({'success': False, 'error': str(e)}), status\<close>
\<close>

definition try_except :: "nat \<Rightarrow> response io \<Rightarrow> response \<times> call list" where
  "try_except status m =
     (case m of
        (Inl e, t) \<Rightarrow> ((error_body (str_exn e), status), t)
      | (Inr r, t) \<Rightarrow> (r, t))"

section \<open>The decorators\<close>

text \<open>\<^verbatim>\<open>s.split(' ')\<close> and \<^verbatim>\<open>s.startswith(p)\<close>.\<close>

fun split_sp :: "string \<Rightarrow> string list" where
  "split_sp [] = [[]]"
| "split_sp (c # cs) =
     (if c = CHR '' '' then [] # split_sp cs
      else (case split_sp cs of [] \<Rightarrow> [[c]] | w # ws \<Rightarrow> (c # w) # ws))"

definition startswith :: "string \<Rightarrow> string \<Rightarrow> bool" where
  "startswith s p = (take (length p) s = p)"

text \<open>
  The variable \<^verbatim>\<open>token\<close> after the header has been read: \<open>None\<close> while it is still
  \<^verbatim>\<open>None\<close>. The index 1 is in range, since the header starts with \<^verbatim>\<open>'Bearer '\<close>
  (lemma \<open>split_sp_bearer\<close>).
\<close>

definition bearer_token :: "request \<Rightarrow> string option" where
  "bearer_token req =
     (case authorization req of
        None \<Rightarrow> None
      | Some auth_header \<Rightarrow>
          if startswith auth_header ''Bearer '' then Some (split_sp auth_header ! 1)
          else None)"

text \<open>
  The \<^verbatim>\<open>try\<close> block of \<^verbatim>\<open>token_required\<close>: it returns a response early (\<open>Inl\<close>)
  or falls through with the request's attributes set (\<open>Inr\<close>).
\<close>

definition token_check :: "services \<Rightarrow> string \<Rightarrow> request \<Rightarrow> (response + request) io" where
  "token_check svc token req =
     bnd (invoke (VerifyToken token) (fb_verify_token svc token)) (\<lambda>decoded_token.
       if \<not> truthy decoded_token then pure_io (Inl (error_body ''Invalid token'', 401))
       else
         bnd (lift (py_subscript decoded_token ''uid'')) (\<lambda>uid.
         bnd (lift (py_subscript decoded_token ''email'')) (\<lambda>email.
           pure_io (Inr (req\<lparr>user_id := Some uid, user_email := Some email\<rparr>)))))"

definition admin_check :: "services \<Rightarrow> string \<Rightarrow> request \<Rightarrow> (response + request) io" where
  "admin_check svc token req =
     bnd (invoke (VerifyToken token) (fb_verify_token svc token)) (\<lambda>decoded_token.
       if \<not> truthy decoded_token then pure_io (Inl (error_body ''Invalid token'', 401))
       else
         bnd (lift (py_subscript decoded_token ''uid'')) (\<lambda>uid.
         bnd (invoke (GetUserData uid) (sb_get_user_data svc uid)) (\<lambda>user_data.
         bnd (if \<not> truthy user_data then pure_io True
              else bnd (lift (py_get user_data ''role'' (Inr PNone)))
                     (\<lambda>role. pure_io (role \<noteq> PStr ''admin''))) (\<lambda>denied.
           if denied then pure_io (Inl (error_body ''Admin access required'', 403))
           else
             bnd (lift (py_subscript decoded_token ''uid'')) (\<lambda>uid'.
             bnd (lift (py_subscript decoded_token ''email'')) (\<lambda>email.
               pure_io (Inr (req\<lparr>user_id := Some uid', user_email := Some email\<rparr>))))))))"

text \<open>
  A decorator applied to the view \<open>f\<close>. An exception of the \<^verbatim>\<open>try\<close> block becomes
  a 401 with its text; \<open>f\<close> runs only when the block falls through.
\<close>

definition guarded ::
  "(string \<Rightarrow> request \<Rightarrow> (response + request) io) \<Rightarrow> (request \<Rightarrow> response \<times> call list)
     \<Rightarrow> request \<Rightarrow> response \<times> call list" where
  "guarded check f req =
     (case bearer_token req of
        None \<Rightarrow> ((error_body ''Token is missing'', 401), [])
      | Some token \<Rightarrow>
          if token = [] then ((error_body ''Token is missing'', 401), [])
          else
            (case check token req of
               (Inl e, t) \<Rightarrow> ((error_body (str_exn e), 401), t)
             | (Inr (Inl early), t) \<Rightarrow> (early, t)
             | (Inr (Inr req'), t) \<Rightarrow> (case f req' of (r, t') \<Rightarrow> (r, t @ t'))))"

definition token_required ::
  "services \<Rightarrow> (request \<Rightarrow> response \<times> call list) \<Rightarrow> request \<Rightarrow> response \<times> call list" where
  "token_required svc f = guarded (token_check svc) f"

definition admin_required ::
  "services \<Rightarrow> (request \<Rightarrow> response \<times> call list) \<Rightarrow> request \<Rightarrow> response \<times> call list" where
  "admin_required svc f = guarded (admin_check svc) f"

section \<open>The views\<close>

text \<open>
  Each view is a \<^verbatim>\<open>try\<close> block (\<open>_body\<close>) whose exceptions become a 500
  (\<open>_view\<close>), behind its decorator (the route itself, under the source's name).
\<close>

subsection \<open>\<^verbatim>\<open>/mark_attendance\<close>\<close>

definition mark_attendance_body :: "services \<Rightarrow> request \<Rightarrow> response io" where
  "mark_attendance_body svc req =
      (bnd (lift (get_json req)) (\<lambda>data.
       bnd (lift (py_get data ''user_id'' (request_user_id req))) (\<lambda>uid.
       bnd (lift (py_get data ''confidence'' (Inr (PInt 0)))) (\<lambda>confidence.
       bnd (lift (py_get data ''timestamp'' (Inr PNone))) (\<lambda>timestamp.
       bnd (lift (py_lt_int confidence 60)) (\<lambda>too_low.
         if too_low then
           pure_io (jsonify [(''success'', PBool False),
                             (''error'', PStr ''Face match confidence too low''),
                             (''confidence'', confidence)], 400)
         else
           bnd (invoke (MarkAttendance uid confidence timestamp)
                  (fb_mark_attendance svc uid confidence timestamp)) (\<lambda>success.
             if truthy success then
               pure_io (ok (jsonify [(''success'', PBool True),
                                     (''message'', PStr ''Attendance marked successfully''),
                                     (''confidence'', confidence),
                                     (''timestamp'', timestamp)]))
             else pure_io (error_body ''Failed to mark attendance'', 500))))))))"

definition mark_attendance_view :: "services \<Rightarrow> request \<Rightarrow> response \<times> call list" where
  "mark_attendance_view svc req = try_except 500 (mark_attendance_body svc req)"

definition mark_attendance :: "services \<Rightarrow> request \<Rightarrow> response \<times> call list" where
  "mark_attendance svc = token_required svc (mark_attendance_view svc)"

subsection \<open>\<^verbatim>\<open>/upload_face\<close>\<close>

definition upload_face_body :: "services \<Rightarrow> request \<Rightarrow> response io" where
  "upload_face_body svc req =
      (bnd (lift (get_json req)) (\<lambda>data.
       bnd (lift (py_get data ''image_data'' (Inr PNone))) (\<lambda>image_data.
       bnd (lift (py_get data ''user_id'' (request_user_id req))) (\<lambda>uid.
       bnd (lift (py_get data ''is_reference'' (Inr (PBool False)))) (\<lambda>is_reference.
         if \<not> truthy image_data then pure_io (error_body ''No image data provided'', 400)
         else
           bnd (invoke (ValidateFaceQuality image_data)
                  (fs_validate_face_quality svc image_data)) (\<lambda>(is_valid, quality_message).
             if \<not> is_valid then
               pure_io (error_body (''Face quality check failed: '' @ quality_message), 400)
             else
               bnd (invoke (EncodeFace image_data)
                      (fs_encode_face_from_base64 svc image_data)) (\<lambda>(encoding, message).
                 if \<not> truthy encoding then
                   pure_io (jsonify [(''success'', PBool False), (''error'', message)], 400)
                 else
                   bnd (invoke (SaveFaceEncoding uid encoding is_reference)
                          (fb_save_face_encoding svc uid encoding is_reference)) (\<lambda>success.
                     if truthy success then
                       (let image_type =
                              (if truthy is_reference then ''reference'' else ''captured'')
                        in bnd (invoke (UploadImage image_data uid image_type)
                                  (fb_upload_image svc image_data uid image_type)) (\<lambda>image_url.
                             pure_io (ok (jsonify
                               [(''success'', PBool True),
                                (''message'', PStr ''Face uploaded successfully''),
                                (''encoding_saved'', PBool True),
                                (''image_url'', image_url)]))))
                     else pure_io (error_body ''Failed to save face encoding'', 500)))))))))"

definition upload_face_view :: "services \<Rightarrow> request \<Rightarrow> response \<times> call list" where
  "upload_face_view svc req = try_except 500 (upload_face_body svc req)"

definition upload_face :: "services \<Rightarrow> request \<Rightarrow> response \<times> call list" where
  "upload_face svc = token_required svc (upload_face_view svc)"

subsection \<open>\<^verbatim>\<open>/compare_faces\<close>\<close>

definition compare_faces_body :: "services \<Rightarrow> request \<Rightarrow> response io" where
  "compare_faces_body svc req =
      (bnd (lift (get_json req)) (\<lambda>data.
       bnd (lift (py_get data ''user_id'' (request_user_id req))) (\<lambda>uid.
       bnd (lift (py_get data ''captured_image'' (Inr PNone))) (\<lambda>captured_image.
         if \<not> truthy captured_image then
           pure_io (error_body ''No captured image provided'', 400)
         else
           bnd (invoke (GetFaceEncoding uid True)
                  (fb_get_face_encoding svc uid True)) (\<lambda>reference_encoding.
             if \<not> truthy reference_encoding then
               pure_io (error_body ''No reference face found'', 404)
             else
               bnd (invoke (EncodeFace captured_image)
                      (fs_encode_face_from_base64 svc captured_image))
                   (\<lambda>(captured_encoding, message).
                 if \<not> truthy captured_encoding then
                   pure_io (jsonify [(''success'', PBool False), (''error'', message)], 400)
                 else
                   bnd (invoke (CompareFaces reference_encoding captured_encoding)
                          (fs_compare_faces svc reference_encoding captured_encoding))
                       (\<lambda>comparison_result.
                   bnd (invoke (SaveFaceEncoding uid captured_encoding (PBool False))
                          (fb_save_face_encoding svc uid captured_encoding (PBool False)))
                       (\<lambda>saved.
                     pure_io (ok comparison_result)))))))))"

definition compare_faces_view :: "services \<Rightarrow> request \<Rightarrow> response \<times> call list" where
  "compare_faces_view svc req = try_except 500 (compare_faces_body svc req)"

definition compare_faces :: "services \<Rightarrow> request \<Rightarrow> response \<times> call list" where
  "compare_faces svc = token_required svc (compare_faces_view svc)"

section \<open>Floats, lengths and dates of the reporting views\<close>

text \<open>
  Binary64 arithmetic as CPython does it, on the rationals the floats denote:
  \<open>round_to_double\<close> is the nearest double, ties to even, subnormals included;
  \<^verbatim>\<open>int / int\<close> is the correctly rounded quotient and raises when it is too large;
  \<^verbatim>\<open>round(x, n)\<close> rounds the exact value half to even at \<open>n\<close> decimals and
  then takes the nearest double.
\<close>

definition round_half_even :: "rat \<Rightarrow> int" where
  "round_half_even q =
     (let f = \<lfloor>q\<rfloor>; d = q - of_int f
      in if d < 1 / 2 then f else if 1 / 2 < d then f + 1 else if even f then f else f + 1)"

definition ilog2 :: "rat \<Rightarrow> int" where
  "ilog2 q =
     (let (a, b) = quotient_of q; k = bitlen a - bitlen b
      in if 2 powi k \<le> q then k else k - 1)"

definition round_to_double :: "rat \<Rightarrow> rat" where
  "round_to_double q =
     (if q = 0 then 0
      else (let e = max (ilog2 \<bar>q\<bar>) (- 1022); ulp = 2 powi (e - 52)
            in of_int (round_half_even (q / ulp)) * ulp))"

definition int_truediv :: "int \<Rightarrow> int \<Rightarrow> exn + pyfloat" where
  "int_truediv a b =
     (if b = 0 then Inl (ZeroDivisionError ''division by zero'')
      else (let r = round_to_double (of_int a / of_int b)
            in if 2 ^ 1024 \<le> \<bar>r\<bar>
               then Inl (OverflowError ''integer division result too large for a float'')
               else Inr (Finite r)))"

fun float_sign :: "pyfloat \<Rightarrow> int" where
  "float_sign (Finite q) = (if q < 0 then - 1 else if q = 0 then 0 else 1)"
| "float_sign PosInf = 1"
| "float_sign NegInf = - 1"
| "float_sign NaN = 0"

definition float_mul :: "pyfloat \<Rightarrow> pyfloat \<Rightarrow> pyfloat" where
  "float_mul x y =
     (if x = NaN \<or> y = NaN then NaN
      else (case (x, y) of
              (Finite a, Finite b) \<Rightarrow>
                (let r = round_to_double (a * b)
                 in if 2 ^ 1024 \<le> r then PosInf else if r \<le> - (2 ^ 1024) then NegInf
                    else Finite r)
            | _ \<Rightarrow>
                (let s = float_sign x * float_sign y
                 in if s = 0 then NaN else if 0 < s then PosInf else NegInf)))"

definition float_round :: "pyfloat \<Rightarrow> nat \<Rightarrow> exn + pyfloat" where
  "float_round x ndigits =
     (case x of
        Finite q \<Rightarrow>
          (let r = round_to_double (of_int (round_half_even (q * 10 ^ ndigits)) / 10 ^ ndigits)
           in if 2 ^ 1024 \<le> \<bar>r\<bar>
              then Inl (OverflowError ''rounded value too large to represent'')
              else Inr (Finite r))
      | _ \<Rightarrow> Inr x)"

text \<open>\<^verbatim>\<open>round(v, ndigits)\<close>: an int (or bool) comes back as an int.\<close>

fun py_round :: "pyval \<Rightarrow> nat \<Rightarrow> exn + pyval" where
  "py_round (PInt i) ndigits = Inr (PInt i)"
| "py_round (PBool b) ndigits = Inr (PInt (if b then 1 else 0))"
| "py_round (PFloat x) ndigits =
     (case float_round x ndigits of Inl e \<Rightarrow> Inl e | Inr r \<Rightarrow> Inr (PFloat r))"
| "py_round v ndigits =
     Inl (TypeError (''type '' @ type_name v @ '' doesn't define __round__ method''))"

text \<open>\<^verbatim>\<open>len(v)\<close> and the items \<^verbatim>\<open>for r in v\<close> visits.\<close>

fun py_len :: "pyval \<Rightarrow> exn + nat" where
  "py_len (PList xs) = Inr (length xs)"
| "py_len (PDict kvs) = Inr (length kvs)"
| "py_len (PStr s) = Inr (length s)"
| "py_len v = Inl (TypeError (''object of type '' @ quoted (type_name v) @ '' has no len()''))"

fun py_iter :: "pyval \<Rightarrow> exn + pyval list" where
  "py_iter (PList xs) = Inr xs"
| "py_iter (PDict kvs) = Inr (map (\<lambda>kv. PStr (fst kv)) kvs)"
| "py_iter (PStr s) = Inr (map (\<lambda>c. PStr [c]) s)"
| "py_iter v = Inl (TypeError (quoted (type_name v) @ '' object is not iterable''))"

text \<open>
  The standard library and the clock, as parameters: the ISO parser and printer of
  \<^verbatim>\<open>datetime\<close>, and \<open>now k\<close>, what the \<open>k\<close>-th \<^verbatim>\<open>datetime.now()\<close> of the request
  returns. A date is its proleptic Gregorian ordinal, so adding a day adds one, up to
  \<^verbatim>\<open>date.max\<close>.
\<close>

record runtime =
  fromisoformat :: "string \<Rightarrow> exn + datetime"
  isoformat :: "datetime \<Rightarrow> string"
  now :: "nat \<Rightarrow> datetime"

definition max_ordinal :: nat where
  "max_ordinal = 3652059"

definition midnight :: "datetime \<Rightarrow> datetime" where
  "midnight d = d\<lparr>hour := 0, minute := 0, second := 0, microsecond := 0\<rparr>"

definition add_one_day :: "datetime \<Rightarrow> exn + datetime" where
  "add_one_day d =
     (if max_ordinal < ordinal d + 1 then Inl (OverflowError ''date value out of range'')
      else Inr (d\<lparr>ordinal := ordinal d + 1\<rparr>))"

definition replace_Z :: "string \<Rightarrow> string" where
  "replace_Z s = concat (map (\<lambda>c. if c = CHR ''Z'' then ''+00:00'' else [c]) s)"

text \<open>
  One date filter of \<^verbatim>\<open>/attendance_records\<close>: an absent argument stays \<^verbatim>\<open>None\<close>,
  an empty one is falsy and stays the empty string, any other is parsed.
\<close>

definition parse_filter :: "runtime \<Rightarrow> string option \<Rightarrow> exn + date_filter" where
  "parse_filter rt a =
     (case a of
        None \<Rightarrow> Inr NoDate
      | Some s \<Rightarrow>
          if s = [] then Inr (RawDate s)
          else (case fromisoformat rt (replace_Z s) of
                  Inl e \<Rightarrow> Inl e
                | Inr d \<Rightarrow> Inr (Date d)))"

subsection \<open>\<^verbatim>\<open>/attendance_records\<close> and \<^verbatim>\<open>/users\<close>\<close>

definition get_attendance_records_body :: "runtime \<Rightarrow> services \<Rightarrow> request \<Rightarrow> response io" where
  "get_attendance_records_body rt svc req =
     (let start_date = map_of (args req) ''start_date'';
          end_date = map_of (args req) ''end_date''
      in bnd (lift (parse_filter rt start_date)) (\<lambda>start_date.
         bnd (lift (parse_filter rt end_date)) (\<lambda>end_date.
         bnd (invoke (GetAttendanceRecords start_date end_date)
                (fb_get_attendance_records svc start_date end_date)) (\<lambda>records.
         bnd (lift (py_len records)) (\<lambda>count.
           pure_io (ok (jsonify [(''success'', PBool True),
                                 (''records'', records),
                                 (''count'', PInt (int count))])))))))"

definition get_attendance_records_view ::
  "runtime \<Rightarrow> services \<Rightarrow> request \<Rightarrow> response \<times> call list" where
  "get_attendance_records_view rt svc req =
     try_except 500 (get_attendance_records_body rt svc req)"

definition get_attendance_records ::
  "runtime \<Rightarrow> services \<Rightarrow> request \<Rightarrow> response \<times> call list" where
  "get_attendance_records rt svc = admin_required svc (get_attendance_records_view rt svc)"

definition get_users_body :: "services \<Rightarrow> request \<Rightarrow> response io" where
  "get_users_body svc req =
     bnd (invoke GetAllUsers (fb_get_all_users svc)) (\<lambda>users.
     bnd (lift (py_len users)) (\<lambda>count.
       pure_io (ok (jsonify [(''success'', PBool True),
                             (''users'', users),
                             (''count'', PInt (int count))]))))"

definition get_users_view :: "services \<Rightarrow> request \<Rightarrow> response \<times> call list" where
  "get_users_view svc req = try_except 500 (get_users_body svc req)"

definition get_users :: "services \<Rightarrow> request \<Rightarrow> response \<times> call list" where
  "get_users svc = admin_required svc (get_users_view svc)"

subsection \<open>\<^verbatim>\<open>/system_stats\<close>\<close>

text \<open>\<^verbatim>\<open>[r for r in today_records if r.get('status') == 'present']\<close>\<close>

fun present_records :: "pyval list \<Rightarrow> exn + pyval list" where
  "present_records [] = Inr []"
| "present_records (r # rs) =
     (case py_get r ''status'' (Inr PNone) of
        Inl e \<Rightarrow> Inl e
      | Inr status \<Rightarrow>
          (case present_records rs of
             Inl e \<Rightarrow> Inl e
           | Inr ps \<Rightarrow> Inr (if status = PStr ''present'' then r # ps else ps)))"

text \<open>
  \<^verbatim>\<open>attendance_rate = (present_today / total_users * 100) if total_users > 0 else 0\<close>
\<close>

definition attendance_rate :: "nat \<Rightarrow> nat \<Rightarrow> exn + pyval" where
  "attendance_rate present_today total_users =
     (if 0 < total_users then
        (case int_truediv (int present_today) (int total_users) of
           Inl e \<Rightarrow> Inl e
         | Inr q \<Rightarrow> Inr (PFloat (float_mul q (Finite 100))))
      else Inr (PInt 0))"

definition get_system_stats_body :: "runtime \<Rightarrow> services \<Rightarrow> request \<Rightarrow> response io" where
  "get_system_stats_body rt svc req =
     (let today_start = midnight (now rt 0)
      in bnd (lift (add_one_day today_start)) (\<lambda>today_end.
         bnd (invoke (GetAttendanceRecords (Date today_start) (Date today_end))
                (fb_get_attendance_records svc (Date today_start) (Date today_end)))
             (\<lambda>today_records.
         bnd (invoke GetAllUsers (fb_get_all_users svc)) (\<lambda>users.
         bnd (lift (py_len users)) (\<lambda>total_users.
         bnd (lift (py_iter today_records)) (\<lambda>rs.
         bnd (lift (present_records rs)) (\<lambda>present.
         bnd (lift (attendance_rate (length present) total_users)) (\<lambda>rate.
         bnd (lift (py_round rate 2)) (\<lambda>rounded.
           pure_io (ok (jsonify
             [(''success'', PBool True),
              (''stats'', PDict [(''total_users'', PInt (int total_users)),
                                 (''present_today'', PInt (int (length present))),
                                 (''attendance_rate'', rounded),
                                 (''system_status'', PStr ''online''),
                                 (''last_updated'', PStr (isoformat rt (now rt 1)))])])))))))))))"

definition get_system_stats_view :: "runtime \<Rightarrow> services \<Rightarrow> request \<Rightarrow> response \<times> call list" where
  "get_system_stats_view rt svc req = try_except 500 (get_system_stats_body rt svc req)"

definition get_system_stats :: "runtime \<Rightarrow> services \<Rightarrow> request \<Rightarrow> response \<times> call list" where
  "get_system_stats rt svc = admin_required svc (get_system_stats_view rt svc)"

subsection \<open>The two open routes\<close>

definition home :: "response \<times> call list" where
  "home = (ok (jsonify [(''message'', PStr ''AI Attendance System API''),
                        (''status'', PStr ''running''),
                        (''version'', PStr ''1.0.0'')]), [])"

definition health_check :: "runtime \<Rightarrow> response \<times> call list" where
  "health_check rt =
     (ok (jsonify [(''status'', PStr ''healthy''),
                   (''timestamp'', PStr (isoformat rt (now rt 0))),
                   (''services'', PDict [(''firebase'', PStr ''connected''),
                                         (''face_recognition'', PStr ''initialized'')])]), [])"

section \<open>Notions the properties are stated with\<close>

text \<open>The calls that write to storage, and the user id a storage call is made for.\<close>

fun is_storage_write :: "call \<Rightarrow> bool" where
  "is_storage_write (SaveFaceEncoding u e r) = True"
| "is_storage_write (UploadImage i u t) = True"
| "is_storage_write (MarkAttendance u c t) = True"
| "is_storage_write c = False"

fun call_user :: "call \<Rightarrow> pyval option" where
  "call_user (SaveFaceEncoding u e r) = Some u"
| "call_user (UploadImage i u t) = Some u"
| "call_user (GetFaceEncoding u r) = Some u"
| "call_user (MarkAttendance u c t) = Some u"
| "call_user c = None"

fun is_comparison :: "call \<Rightarrow> bool" where
  "is_comparison (CompareFaces r c) = True"
| "is_comparison c = False"

text \<open>
  The user id the specification asks for: the one the body supplies, and the
  authenticated subject's when the body has none.
\<close>

definition effective_user_id :: "(string \<times> pyval) list \<Rightarrow> pyval \<Rightarrow> pyval" where
  "effective_user_id kvs uid = (case map_of kvs ''user_id'' of None \<Rightarrow> uid | Some v \<Rightarrow> v)"

definition field :: "(string \<times> pyval) list \<Rightarrow> string \<Rightarrow> pyval" where
  "field kvs k = (case map_of kvs k of None \<Rightarrow> PNone | Some v \<Rightarrow> v)"

text \<open>
  A request with no usable token: no \<^verbatim>\<open>Authorization\<close> header, or one that does
  not start with \<^verbatim>\<open>'Bearer '\<close>. External verification fails when the provider
  raises or returns a falsy value; \<open>rejection_text\<close> is the error text of the 401.
\<close>

definition no_bearer_token :: "request \<Rightarrow> bool" where
  "no_bearer_token req =
     (case authorization req of None \<Rightarrow> True | Some h \<Rightarrow> \<not> startswith h ''Bearer '')"

definition verification_fails :: "exn + pyval \<Rightarrow> bool" where
  "verification_fails r = (case r of Inl e \<Rightarrow> True | Inr decoded \<Rightarrow> \<not> truthy decoded)"

definition rejection_text :: "exn + pyval \<Rightarrow> string" where
  "rejection_text r = (case r of Inl e \<Rightarrow> str_exn e | Inr decoded \<Rightarrow> ''Invalid token'')"

definition low_confidence_body :: "pyval \<Rightarrow> pyval" where
  "low_confidence_body c =
     jsonify [(''success'', PBool False),
              (''error'', PStr ''Face match confidence too low''),
              (''confidence'', c)]"

section \<open>An example deployment\<close>

text \<open>
  Services, a runtime and requests to evaluate the views on: two tokens are known to
  the identity provider, \<^verbatim>\<open>admin1\<close> is an admin, \<^verbatim>\<open>u1\<close> has a reference encoding,
  there are three users and one of today's two records is \<^verbatim>\<open>present\<close>. The parser
  accepts one timestamp and rejects every other string with CPython's message.
\<close>

definition example_services :: services where
  "example_services =
     \<lparr> fb_verify_token = (\<lambda>t.
         if t = ''tok-u1'' then
           Inr (PDict [(''uid'', PStr ''u1''), (''email'', PStr ''u1@example.org'')])
         else if t = ''tok-admin'' then
           Inr (PDict [(''uid'', PStr ''admin1''), (''email'', PStr ''admin1@example.org'')])
         else Inr PNone),
       sb_get_user_data = (\<lambda>u.
         if u = PStr ''admin1'' then Inr (PDict [(''role'', PStr ''admin'')])
         else if u = PStr ''u1'' then Inr (PDict [(''role'', PStr ''student'')])
         else Inr PNone),
       fs_validate_face_quality = (\<lambda>image. Inr (True, ''Face quality is good'')),
       fs_encode_face_from_base64 = (\<lambda>image.
         Inr (PList [PInt 1, PInt 2], PStr ''Face encoded successfully'')),
       fs_compare_faces = (\<lambda>reference captured.
         Inr (PDict [(''is_match'', PBool True), (''confidence'', PInt 97)])),
       fb_save_face_encoding = (\<lambda>u encoding is_reference. Inr (PBool True)),
       fb_upload_image = (\<lambda>image u image_type. Inr (PStr ''https://storage.example/u1'')),
       fb_get_face_encoding = (\<lambda>u is_reference.
         if u = PStr ''u1'' then Inr (PList [PInt 1, PInt 2]) else Inr PNone),
       fb_mark_attendance = (\<lambda>u confidence timestamp. Inr (PBool True)),
       fb_get_attendance_records = (\<lambda>start_date end_date.
         Inr (PList [PDict [(''user_id'', PStr ''u1''), (''status'', PStr ''present'')],
                     PDict [(''user_id'', PStr ''u2''), (''status'', PStr ''rejected'')]])),
       fb_get_all_users = Inr (PList [PStr ''u1'', PStr ''u2'', PStr ''u3'']) \<rparr>"

definition example_datetime :: datetime where
  "example_datetime =
     \<lparr> ordinal = 738886, hour = 9, minute = 0, second = 0, microsecond = 0,
       utcoffset = None \<rparr>"

definition example_runtime :: runtime where
  "example_runtime =
     \<lparr> fromisoformat = (\<lambda>s.
         if s = ''2024-01-01T09:00:00+00:00'' then Inr (example_datetime\<lparr>utcoffset := Some 0\<rparr>)
         else Inl (ValueError (''Invalid isoformat string: '' @ quoted s))),
       isoformat = (\<lambda>d. ''2024-01-01T09:00:00''),
       now = (\<lambda>k. example_datetime) \<rparr>"

definition example_request :: "string \<Rightarrow> pyval \<Rightarrow> (string \<times> string) list \<Rightarrow> request" where
  "example_request token body query =
     \<lparr> authorization = Some (''Bearer '' @ token), get_json = Inr body, args = query,
       user_id = None, user_email = None \<rparr>"

text \<open>
  Variants of the example: an identity provider that raises, and a user store and an
  attendance write that raise.
\<close>

definition provider_down :: services where
  "provider_down =
     example_services\<lparr>fb_verify_token := (\<lambda>t. Inl (ServiceError ''identity provider unavailable''))\<rparr>"

definition store_down :: services where
  "store_down =
     example_services\<lparr>sb_get_user_data := (\<lambda>u. Inl (ServiceError ''user store unavailable'')),
                       fb_mark_attendance := (\<lambda>u c t. Inl (ServiceError ''write failed''))\<rparr>"

text \<open>What \<^verbatim>\<open>/upload_face\<close> reads from the body besides the user.\<close>

definition is_reference_of :: "(string \<times> pyval) list \<Rightarrow> pyval" where
  "is_reference_of kvs =
     (case map_of kvs ''is_reference'' of None \<Rightarrow> PBool False | Some v \<Rightarrow> v)"

definition image_type_of :: "(string \<times> pyval) list \<Rightarrow> string" where
  "image_type_of kvs = (if truthy (is_reference_of kvs) then ''reference'' else ''captured'')"

definition upload_success_body :: "pyval \<Rightarrow> pyval" where
  "upload_success_body image_url =
     jsonify [(''success'', PBool True),
              (''message'', PStr ''Face uploaded successfully''),
              (''encoding_saved'', PBool True),
              (''image_url'', image_url)]"

text \<open>
  More variants of the example: an image store that raises, and one that returns
  \<^verbatim>\<open>None\<close> instead of an address.
\<close>

definition image_store_down :: services where
  "image_store_down =
     example_services\<lparr>fb_upload_image := (\<lambda>image u image_type.
        Inl (ServiceError ''bucket unavailable''))\<rparr>"

definition image_store_silent :: services where
  "image_store_silent =
     example_services\<lparr>fb_upload_image := (\<lambda>image u image_type. Inr PNone)\<rparr>"

text \<open>The 500 a view makes of an exception, as a response.\<close>

definition server_error :: "exn \<Rightarrow> response" where
  "server_error e = (error_body (str_exn e), 500)"

text \<open>The example with no user at all.\<close>

definition no_users :: services where
  "no_users = example_services\<lparr>fb_get_all_users := Inr (PList [])\<rparr>"

text \<open>
  Two more variants of the example: a face service whose encoder raises, and a store
  whose attendance records and user list cannot be read.
\<close>

definition encoder_down :: services where
  "encoder_down =
     example_services\<lparr>fs_encode_face_from_base64 := (\<lambda>image.
        Inl (ServiceError ''encoder unavailable''))\<rparr>"

definition records_down :: services where
  "records_down =
     example_services\<lparr>fb_get_attendance_records := (\<lambda>start_date end_date.
        Inl (ServiceError ''records unavailable'')),
        fb_get_all_users := Inl (ServiceError ''users unavailable'')\<rparr>"

section \<open>Running a computation\<close>

lemma bnd_lift_Inl [simp]: "bnd (lift (Inl e)) k = (Inl e, [])"
  by (simp add: bnd_def lift_def)

lemma bnd_lift_Inr [simp]: "bnd (lift (Inr x)) k = k x"
  by (simp add: bnd_def lift_def split: prod.splits)

lemma bnd_invoke_Inl [simp]: "bnd (invoke c (Inl e)) k = (Inl e, [c])"
  by (simp add: bnd_def invoke_def)

lemma bnd_invoke_Inr [simp]: "bnd (invoke c (Inr x)) k = (fst (k x), c # snd (k x))"
  by (simp add: bnd_def invoke_def split: prod.splits)

lemma bnd_pure_io [simp]: "bnd (pure_io x) k = k x"
  by (simp add: bnd_def pure_io_def split: prod.splits)

lemma fst_pure_io [simp]: "fst (pure_io x) = Inr x"
  by (simp add: pure_io_def)

lemma snd_pure_io [simp]: "snd (pure_io x) = []"
  by (simp add: pure_io_def)

lemma try_except_Inl [simp]: "try_except status (Inl e, t) = ((error_body (str_exn e), status), t)"
  by (simp add: try_except_def)

lemma try_except_Inr [simp]: "try_except status (Inr r, t) = (r, t)"
  by (simp add: try_except_def)

lemma try_except_pure_io [simp]: "try_except status (pure_io r) = (r, [])"
  by (simp add: pure_io_def)

lemma snd_try_except: "snd (try_except status (r, t)) = t"
  by (cases r) simp_all

lemma split_sp_nonempty: "split_sp s \<noteq> []"
  by (induction s) (auto split: list.splits)

lemma split_sp_bearer: "startswith h ''Bearer '' \<Longrightarrow> 2 \<le> length (split_sp h)"
proof -
  assume "startswith h ''Bearer ''"
  then obtain r where h: "h = ''Bearer '' @ r"
    unfolding startswith_def by (metis append_take_drop_id)
  obtain w ws where "split_sp r = w # ws"
    using split_sp_nonempty by (cases "split_sp r") auto
  then show ?thesis unfolding h by simp
qed

lemma token_check_pass:
  assumes "fb_verify_token svc token = Inr decoded" "truthy decoded"
    and "py_subscript decoded ''uid'' = Inr uid" "py_subscript decoded ''email'' = Inr email"
  shows "token_check svc token req =
           (Inr (Inr (req\<lparr>user_id := Some uid, user_email := Some email\<rparr>)), [VerifyToken token])"
  using assms by (simp add: token_check_def)

lemma token_required_pass:
  assumes "bearer_token req = Some token" "token \<noteq> []"
    and "fb_verify_token svc token = Inr decoded" "truthy decoded"
    and "py_subscript decoded ''uid'' = Inr uid" "py_subscript decoded ''email'' = Inr email"
  shows "token_required svc f req =
           (fst (f (req\<lparr>user_id := Some uid, user_email := Some email\<rparr>)),
            VerifyToken token # snd (f (req\<lparr>user_id := Some uid, user_email := Some email\<rparr>)))"
  using assms by (simp add: token_required_def guarded_def token_check_pass split: prod.splits)

lemma admin_check_pass:
  assumes "fb_verify_token svc token = Inr decoded" "truthy decoded"
    and "py_subscript decoded ''uid'' = Inr uid" "py_subscript decoded ''email'' = Inr email"
    and "sb_get_user_data svc uid = Inr (PDict ukvs)" "map_of ukvs ''role'' = Some (PStr ''admin'')"
  shows "admin_check svc token req =
           (Inr (Inr (req\<lparr>user_id := Some uid, user_email := Some email\<rparr>)),
            [VerifyToken token, GetUserData uid])"
proof -
  have "ukvs \<noteq> []" using assms(6) by auto
  then show ?thesis using assms by (simp add: admin_check_def)
qed

lemma admin_required_pass:
  assumes "bearer_token req = Some token" "token \<noteq> []"
    and "fb_verify_token svc token = Inr decoded" "truthy decoded"
    and "py_subscript decoded ''uid'' = Inr uid" "py_subscript decoded ''email'' = Inr email"
    and "sb_get_user_data svc uid = Inr (PDict ukvs)" "map_of ukvs ''role'' = Some (PStr ''admin'')"
  shows "admin_required svc f req =
           (fst (f (req\<lparr>user_id := Some uid, user_email := Some email\<rparr>)),
            VerifyToken token # GetUserData uid
              # snd (f (req\<lparr>user_id := Some uid, user_email := Some email\<rparr>)))"
  using assms(1,2) admin_check_pass[OF assms(3-8)]
  by (simp add: admin_required_def guarded_def split: prod.splits)

lemma request_user_id_set [simp]:
  "request_user_id (req\<lparr>user_id := Some uid, user_email := e\<rparr>) = Inr uid"
  by (simp add: request_user_id_def)

lemma ge_iff_not_lt:
  "c \<noteq> PFloat NaN \<Longrightarrow> (py_ge_int c n = Inr True) = (py_lt_int c n = Inr False)"
proof (cases c)
  case (PFloat x)
  assume "c \<noteq> PFloat NaN"
  with PFloat show ?thesis by (cases x) auto
qed auto

lemma mark_attendance_body_dict:
  assumes "get_json req = Inr (PDict kvs)" "request_user_id req = Inr uid"
  shows "mark_attendance_view svc req =
    (case py_lt_int (case map_of kvs ''confidence'' of None \<Rightarrow> PInt 0 | Some c \<Rightarrow> c) 60 of
       Inl e \<Rightarrow> ((error_body (str_exn e), 500), [])
     | Inr True \<Rightarrow> ((low_confidence_body (case map_of kvs ''confidence'' of None \<Rightarrow> PInt 0 | Some c \<Rightarrow> c), 400), [])
     | Inr False \<Rightarrow>
        (let c = (case map_of kvs ''confidence'' of None \<Rightarrow> PInt 0 | Some c \<Rightarrow> c);
             w = MarkAttendance (effective_user_id kvs uid) c (field kvs ''timestamp'')
         in (case fb_mark_attendance svc (effective_user_id kvs uid) c (field kvs ''timestamp'') of
               Inl e \<Rightarrow> ((error_body (str_exn e), 500), [w])
             | Inr success \<Rightarrow>
                 if truthy success then
                   (ok (jsonify [(''success'', PBool True),
                                 (''message'', PStr ''Attendance marked successfully''),
                                 (''confidence'', c),
                                 (''timestamp'', field kvs ''timestamp'')]), [w])
                 else ((error_body ''Failed to mark attendance'', 500), [w]))))"
  using assms
  by (auto simp: mark_attendance_view_def mark_attendance_body_def effective_user_id_def
      field_def low_confidence_body_def Let_def split: sum.splits option.splits bool.splits)

lemma upload_face_view_saved:
  assumes "get_json req = Inr (PDict kvs)" "request_user_id req = Inr uid"
    and "truthy (field kvs ''image_data'')"
    and "fs_validate_face_quality svc (field kvs ''image_data'') = Inr (True, quality_message)"
    and "fs_encode_face_from_base64 svc (field kvs ''image_data'') = Inr (encoding, message)"
      "truthy encoding"
    and "fb_save_face_encoding svc (effective_user_id kvs uid) encoding (is_reference_of kvs)
           = Inr saved" "truthy saved"
  shows "upload_face_view svc req =
           (case fb_upload_image svc (field kvs ''image_data'') (effective_user_id kvs uid)
                   (image_type_of kvs) of
              Inl e \<Rightarrow> (error_body (str_exn e), 500)
            | Inr image_url \<Rightarrow> ok (upload_success_body image_url),
            [ValidateFaceQuality (field kvs ''image_data''),
             EncodeFace (field kvs ''image_data''),
             SaveFaceEncoding (effective_user_id kvs uid) encoding (is_reference_of kvs),
             UploadImage (field kvs ''image_data'') (effective_user_id kvs uid)
               (image_type_of kvs)])"
  using assms
  unfolding field_def effective_user_id_def is_reference_of_def image_type_of_def
  by (cases "fb_upload_image svc (case map_of kvs ''image_data'' of None \<Rightarrow> PNone | Some v \<Rightarrow> v)
               (case map_of kvs ''user_id'' of None \<Rightarrow> uid | Some v \<Rightarrow> v)
               (if truthy (case map_of kvs ''is_reference'' of None \<Rightarrow> PBool False | Some v \<Rightarrow> v)
                then ''reference'' else ''captured'')")
     (simp_all add: upload_face_view_def upload_face_body_def upload_success_body_def Let_def)

section \<open>The example deployment, evaluated\<close>

lemma bearer_token_example [simp]:
  "bearer_token (example_request ''tok-u1'' body query) = Some ''tok-u1''"
  "bearer_token (example_request ''tok-admin'' body query) = Some ''tok-admin''"
  by (simp_all add: bearer_token_def example_request_def startswith_def)

lemma example_request_fields [simp]:
  "get_json (example_request t body query) = Inr body"
  "args (example_request t body query) = query"
  by (simp_all add: example_request_def)

lemma example_tokens [simp]:
  "fb_verify_token example_services ''tok-u1''
     = Inr (PDict [(''uid'', PStr ''u1''), (''email'', PStr ''u1@example.org'')])"
  "fb_verify_token example_services ''tok-admin''
     = Inr (PDict [(''uid'', PStr ''admin1''), (''email'', PStr ''admin1@example.org'')])"
  "sb_get_user_data example_services (PStr ''admin1'') = Inr (PDict [(''role'', PStr ''admin'')])"
  by (simp_all add: example_services_def)

lemma example_face_calls:
  "fs_validate_face_quality example_services img = Inr (True, ''Face quality is good'')"
  "fs_encode_face_from_base64 example_services img
     = Inr (PList [PInt 1, PInt 2], PStr ''Face encoded successfully'')"
  "fs_compare_faces example_services reference captured
     = Inr (PDict [(''is_match'', PBool True), (''confidence'', PInt 97)])"
  "fb_save_face_encoding example_services u encoding is_reference = Inr (PBool True)"
  "fb_get_face_encoding example_services (PStr ''u1'') reference_only
     = Inr (PList [PInt 1, PInt 2])"
  by (simp_all add: example_services_def)

lemma example_failures:
  "fb_verify_token store_down = fb_verify_token example_services"
  "fb_mark_attendance store_down u c t = Inl (ServiceError ''write failed'')"
  "sb_get_user_data store_down u = Inl (ServiceError ''user store unavailable'')"
  "fb_verify_token provider_down tok = Inl (ServiceError ''identity provider unavailable'')"
  "fb_verify_token encoder_down = fb_verify_token example_services"
  "fb_get_face_encoding encoder_down = fb_get_face_encoding example_services"
  "fs_validate_face_quality encoder_down = fs_validate_face_quality example_services"
  "fs_encode_face_from_base64 encoder_down img = Inl (ServiceError ''encoder unavailable'')"
  "fb_verify_token records_down = fb_verify_token example_services"
  "sb_get_user_data records_down = sb_get_user_data example_services"
  "fb_get_attendance_records records_down start_date end_date
     = Inl (ServiceError ''records unavailable'')"
  "fb_get_all_users records_down = Inl (ServiceError ''users unavailable'')"
  by (simp_all add: store_down_def provider_down_def encoder_down_def records_down_def)

section \<open>The confidence gate of \<^verbatim>\<open>/mark_attendance\<close>\<close>

text \<open>
  The gate, for every confidence. For a request that passes the token check and
  carries a JSON object with a confidence \<open>c\<close>: the view makes a storage write if and
  only if \<^verbatim>\<open>c < 60\<close> is false, and then exactly one, the call of
  \<^verbatim>\<open>mark_attendance\<close> for the effective user with \<open>c\<close> and the timestamp; for
  \<open>c < 60\<close> the response is the 400 that echoes \<open>c\<close> and the only call of the request
  is the token verification; and for every \<open>c\<close> but NaN, \<^verbatim>\<open>c < 60\<close> is false exactly
  when \<open>c >= 60\<close>. A confidence that cannot be compared with a number raises, and
  leads to no write.
\<close>

lemma mark_attendance_gate:
  assumes token: "bearer_token req = Some token" "token \<noteq> []"
    and verified: "fb_verify_token svc token = Inr decoded" "truthy decoded"
      "py_subscript decoded ''uid'' = Inr uid" "py_subscript decoded ''email'' = Inr email"
    and body: "get_json req = Inr (PDict kvs)" "map_of kvs ''confidence'' = Some c"
  shows "((\<exists>w \<in> set (snd (mark_attendance svc req)). is_storage_write w)
            \<longleftrightarrow> py_lt_int c 60 = Inr False)
       \<and> (py_lt_int c 60 = Inr False \<longrightarrow>
            filter is_storage_write (snd (mark_attendance svc req))
              = [MarkAttendance (effective_user_id kvs uid) c (field kvs ''timestamp'')])
       \<and> (py_lt_int c 60 = Inr True \<longrightarrow>
            mark_attendance svc req = ((low_confidence_body c, 400), [VerifyToken token]))
       \<and> (c \<noteq> PFloat NaN \<longrightarrow>
            (py_lt_int c 60 = Inr False \<longleftrightarrow> py_ge_int c 60 = Inr True))"
proof -
  let ?req = "req\<lparr>user_id := Some uid, user_email := Some email\<rparr>"
  have route: "mark_attendance svc req =
      (fst (mark_attendance_view svc ?req), VerifyToken token # snd (mark_attendance_view svc ?req))"
    unfolding mark_attendance_def by (rule token_required_pass[OF token verified])
  have view: "get_json ?req = Inr (PDict kvs)" "request_user_id ?req = Inr uid"
    using body by simp_all
  note v = mark_attendance_body_dict[OF view, of svc]
  have gate: "(\<exists>w \<in> set (snd (mark_attendance svc req)). is_storage_write w)
            \<longleftrightarrow> py_lt_int c 60 = Inr False"
    "py_lt_int c 60 = Inr False \<longrightarrow>
            filter is_storage_write (snd (mark_attendance svc req))
              = [MarkAttendance (effective_user_id kvs uid) c (field kvs ''timestamp'')]"
    "py_lt_int c 60 = Inr True \<longrightarrow>
            mark_attendance svc req = ((low_confidence_body c, 400), [VerifyToken token])"
    unfolding route v using body(2)
    by (auto simp: Let_def split: sum.splits bool.splits)
  show ?thesis using gate ge_iff_not_lt[of c 60] by blast
qed

text \<open>
  C1. The claim is right about every confidence but one. At NaN, which the JSON parser
  of the request accepts, the guard \<^verbatim>\<open>confidence < 60\<close> is false: the write is called
  with the NaN and the response is the 200 success, although \<^verbatim>\<open>confidence >= 60\<close> is
  false as well.
\<close>

theorem nan_confidence_is_written:
  "mark_attendance example_services
     (example_request ''tok-u1'' (PDict [(''confidence'', PFloat NaN)]) [])
   = ((PDict [(''success'', PBool True),
              (''message'', PStr ''Attendance marked successfully''),
              (''confidence'', PFloat NaN),
              (''timestamp'', PNone)], 200),
      [VerifyToken ''tok-u1'', MarkAttendance (PStr ''u1'') (PFloat NaN) PNone])
   \<and> py_ge_int (PFloat NaN) 60 = Inr False"
proof -
  let ?req = "example_request ''tok-u1'' (PDict [(''confidence'', PFloat NaN)]) []"
  let ?req' = "?req\<lparr>user_id := Some (PStr ''u1''),
                        user_email := Some (PStr ''u1@example.org'')\<rparr>"
  have route: "mark_attendance example_services ?req =
      (fst (mark_attendance_view example_services ?req'),
       VerifyToken ''tok-u1'' # snd (mark_attendance_view example_services ?req'))"
    unfolding mark_attendance_def
    by (rule token_required_pass[where
          decoded = "PDict [(''uid'', PStr ''u1''), (''email'', PStr ''u1@example.org'')]"])
       simp_all
  have store: "fb_mark_attendance example_services u c t = Inr (PBool True)" for u c t
    by (simp add: example_services_def)
  show ?thesis
    unfolding route
    by (simp add: mark_attendance_view_def mark_attendance_body_def store ok_def jsonify_def)
qed

text \<open>
  C10. For a request that passes the token check and carries a JSON object with no
  \<^verbatim>\<open>confidence\<close> key, the confidence is the int 0: the response is the 400
  low-confidence rejection echoing 0, and no call is made after the token verification,
  so nothing is written.
\<close>

theorem missing_confidence_rejected:
  assumes token: "bearer_token req = Some token" "token \<noteq> []"
    and verified: "fb_verify_token svc token = Inr decoded" "truthy decoded"
      "py_subscript decoded ''uid'' = Inr uid" "py_subscript decoded ''email'' = Inr email"
    and body: "get_json req = Inr (PDict kvs)" "map_of kvs ''confidence'' = None"
  shows "mark_attendance svc req = ((low_confidence_body (PInt 0), 400), [VerifyToken token])"
proof -
  let ?req = "req\<lparr>user_id := Some uid, user_email := Some email\<rparr>"
  have route: "mark_attendance svc req =
      (fst (mark_attendance_view svc ?req), VerifyToken token # snd (mark_attendance_view svc ?req))"
    unfolding mark_attendance_def by (rule token_required_pass[OF token verified])
  have view: "get_json ?req = Inr (PDict kvs)" "request_user_id ?req = Inr uid"
    using body by simp_all
  show ?thesis
    unfolding route mark_attendance_body_dict[OF view, of svc] using body(2) by simp
qed

text \<open>The theorem at a body that has a timestamp only.\<close>

theorem missing_confidence_rejected_witness:
  "mark_attendance example_services
     (example_request ''tok-u1'' (PDict [(''timestamp'', PStr ''2024-01-01T09:00:00Z'')]) [])
   = ((low_confidence_body (PInt 0), 400), [VerifyToken ''tok-u1''])"
  by (rule missing_confidence_rejected[where uid = "PStr ''u1''"
        and email = "PStr ''u1@example.org''"
        and decoded = "PDict [(''uid'', PStr ''u1''), (''email'', PStr ''u1@example.org'')]"
        and kvs = "[(''timestamp'', PStr ''2024-01-01T09:00:00Z'')]"])
     simp_all

section \<open>The two gates\<close>

lemma guarded_no_token:
  "no_bearer_token req \<or> bearer_token req = Some [] \<Longrightarrow>
     guarded check f req = ((error_body ''Token is missing'', 401), [])"
  by (auto simp: guarded_def no_bearer_token_def bearer_token_def split: option.splits)

lemma check_verification_fails:
  assumes "verification_fails (fb_verify_token svc token)"
  shows "token_check svc token req =
           (case fb_verify_token svc token of
              Inl e \<Rightarrow> (Inl e, [VerifyToken token])
            | Inr d \<Rightarrow> (Inr (Inl (error_body ''Invalid token'', 401)), [VerifyToken token]))"
    and "admin_check svc token req =
           (case fb_verify_token svc token of
              Inl e \<Rightarrow> (Inl e, [VerifyToken token])
            | Inr d \<Rightarrow> (Inr (Inl (error_body ''Invalid token'', 401)), [VerifyToken token]))"
  using assms
  by (auto simp: verification_fails_def token_check_def admin_check_def split: sum.splits)

lemma bearer_token_other [simp]:
  "bearer_token (example_request ''expired'' body query) = Some ''expired''"
  by (simp add: bearer_token_def example_request_def startswith_def)

text \<open>
  C2. A request to a protected route (either decorator, any view \<open>f\<close>) with no
  \<^verbatim>\<open>Authorization\<close> header, with one that does not start with \<^verbatim>\<open>'Bearer '\<close>, or
  with an empty token after it, gets the 401 \<^verbatim>\<open>Token is missing\<close> and no call is made,
  so the identity provider is not asked. With a token the provider raises on or answers
  with a falsy value, the response is a 401 and the verification is the only call. In
  both cases the result does not mention \<open>f\<close>: the view is not run.
\<close>

theorem unverified_requests_rejected:
  "(no_bearer_token req \<or> bearer_token req = Some [] \<longrightarrow>
      token_required svc f req = ((error_body ''Token is missing'', 401), [])
      \<and> admin_required svc f req = ((error_body ''Token is missing'', 401), []))
   \<and> (bearer_token req = Some token \<and> token \<noteq> []
        \<and> verification_fails (fb_verify_token svc token) \<longrightarrow>
      token_required svc f req
        = ((error_body (rejection_text (fb_verify_token svc token)), 401), [VerifyToken token])
      \<and> admin_required svc f req
        = ((error_body (rejection_text (fb_verify_token svc token)), 401), [VerifyToken token]))"
proof (intro conjI impI)
  assume "no_bearer_token req \<or> bearer_token req = Some []"
  then show "token_required svc f req = ((error_body ''Token is missing'', 401), [])"
    and "admin_required svc f req = ((error_body ''Token is missing'', 401), [])"
    by (simp_all add: token_required_def admin_required_def guarded_no_token)
next
  assume a: "bearer_token req = Some token \<and> token \<noteq> []
    \<and> verification_fails (fb_verify_token svc token)"
  then have fails: "verification_fails (fb_verify_token svc token)" by simp
  from a show "token_required svc f req
      = ((error_body (rejection_text (fb_verify_token svc token)), 401), [VerifyToken token])"
    by (simp add: token_required_def guarded_def check_verification_fails(1)[OF fails]
        rejection_text_def split: sum.splits)
  from a show "admin_required svc f req
      = ((error_body (rejection_text (fb_verify_token svc token)), 401), [VerifyToken token])"
    by (simp add: admin_required_def guarded_def check_verification_fails(2)[OF fails]
        rejection_text_def split: sum.splits)
qed

text \<open>
  The theorem at a Basic header on a token route, and at a token the provider does not
  know on an admin route.
\<close>

theorem unverified_requests_rejected_witness:
  "mark_attendance example_services
     \<lparr>authorization = Some ''Basic dTE6cHc='',
      get_json = Inr (PDict [(''confidence'', PInt 85)]), args = [],
      user_id = None, user_email = None\<rparr>
     = ((error_body ''Token is missing'', 401), [])
   \<and> get_users example_services (example_request ''expired'' PNone [])
     = ((error_body ''Invalid token'', 401), [VerifyToken ''expired''])"
proof -
  let ?basic = "\<lparr>authorization = Some ''Basic dTE6cHc='',
      get_json = Inr (PDict [(''confidence'', PInt 85)]), args = [],
      user_id = None, user_email = None\<rparr>"
  have "no_bearer_token ?basic"
    by (simp add: no_bearer_token_def startswith_def)
  then have "mark_attendance example_services ?basic = ((error_body ''Token is missing'', 401), [])"
    using unverified_requests_rejected[of ?basic example_services
        "mark_attendance_view example_services" "[]"]
    by (simp add: mark_attendance_def)
  moreover have "verification_fails (fb_verify_token example_services ''expired'')"
    by (simp add: verification_fails_def example_services_def)
  then have "get_users example_services (example_request ''expired'' PNone [])
     = ((error_body ''Invalid token'', 401), [VerifyToken ''expired''])"
    using unverified_requests_rejected[of "example_request ''expired'' PNone []" example_services
        "get_users_view example_services" "''expired''"]
    by (simp add: get_users_def rejection_text_def example_services_def)
  ultimately show ?thesis by simp
qed

lemma admin_check_denied:
  assumes "fb_verify_token svc token = Inr decoded" "truthy decoded"
    and "py_subscript decoded ''uid'' = Inr uid"
    and "sb_get_user_data svc uid = Inr user_data"
    and "\<not> truthy user_data
         \<or> (\<exists>kvs. user_data = PDict kvs \<and> map_of kvs ''role'' \<noteq> Some (PStr ''admin''))"
  shows "admin_check svc token req =
           (Inr (Inl (error_body ''Admin access required'', 403)),
            [VerifyToken token, GetUserData uid])"
  using assms by (auto simp: admin_check_def split: option.splits)

text \<open>
  C3. On an admin route, when the token verifies to an identity with a \<^verbatim>\<open>uid\<close> and
  the user store returns no record (a falsy value) or a record whose role is not
  \<^verbatim>\<open>'admin'\<close>, the response is the 403 \<^verbatim>\<open>Admin access required\<close>, the view is not
  run, and the calls are the verification and the lookup. This holds for the decorator
  with any view and so for the three admin routes. The same request with a token that
  fails verification gets a 401, so the two outcomes differ.
\<close>

theorem non_admin_forbidden:
  assumes token: "bearer_token req = Some token" "token \<noteq> []"
    and verified: "fb_verify_token svc token = Inr decoded" "truthy decoded"
      "py_subscript decoded ''uid'' = Inr uid"
    and lookup: "sb_get_user_data svc uid = Inr user_data"
    and no_admin: "\<not> truthy user_data
         \<or> (\<exists>kvs. user_data = PDict kvs \<and> map_of kvs ''role'' \<noteq> Some (PStr ''admin''))"
  shows "admin_required svc f req
           = ((error_body ''Admin access required'', 403), [VerifyToken token, GetUserData uid])
       \<and> get_attendance_records rt svc req
           = ((error_body ''Admin access required'', 403), [VerifyToken token, GetUserData uid])
       \<and> get_users svc req
           = ((error_body ''Admin access required'', 403), [VerifyToken token, GetUserData uid])
       \<and> get_system_stats rt svc req
           = ((error_body ''Admin access required'', 403), [VerifyToken token, GetUserData uid])
       \<and> (\<forall>svc'. verification_fails (fb_verify_token svc' token) \<longrightarrow>
             snd (fst (admin_required svc' f req)) = 401)"
proof -
  have denied: "admin_required svc g req
      = ((error_body ''Admin access required'', 403), [VerifyToken token, GetUserData uid])" for g
    using token admin_check_denied[OF verified lookup no_admin]
    by (simp add: admin_required_def guarded_def)
  have rejected: "snd (fst (admin_required svc' f req)) = 401"
    if "verification_fails (fb_verify_token svc' token)" for svc'
    using token check_verification_fails(2)[OF that]
    by (simp add: admin_required_def guarded_def split: sum.splits)
  show ?thesis
    using denied rejected
    by (simp add: get_attendance_records_def get_users_def get_system_stats_def)
qed

text \<open>The theorem at the token of \<^verbatim>\<open>u1\<close>, whose role is \<^verbatim>\<open>student\<close>.\<close>

theorem non_admin_forbidden_witness:
  "get_users example_services (example_request ''tok-u1'' PNone [])
     = ((error_body ''Admin access required'', 403),
        [VerifyToken ''tok-u1'', GetUserData (PStr ''u1'')])
   \<and> snd (fst (get_users example_services (example_request ''tok-u1'' PNone []))) \<noteq> 401"
proof -
  have role: "sb_get_user_data example_services (PStr ''u1'')
      = Inr (PDict [(''role'', PStr ''student'')])"
    by (simp add: example_services_def)
  have "get_users example_services (example_request ''tok-u1'' PNone [])
     = ((error_body ''Admin access required'', 403),
        [VerifyToken ''tok-u1'', GetUserData (PStr ''u1'')])"
    using non_admin_forbidden[OF bearer_token_example(1) _ example_tokens(1) _ _ role]
    by simp
  then show ?thesis by simp
qed

section \<open>\<^verbatim>\<open>/compare_faces\<close> without a reference encoding\<close>

lemma compare_faces_view_no_reference:
  assumes "get_json req = Inr (PDict kvs)" "request_user_id req = Inr uid"
    and "fb_get_face_encoding svc (effective_user_id kvs uid) True = Inr reference"
      "\<not> truthy reference"
  shows "compare_faces_view svc req =
           (if truthy (field kvs ''captured_image'')
            then ((error_body ''No reference face found'', 404),
                  [GetFaceEncoding (effective_user_id kvs uid) True])
            else ((error_body ''No captured image provided'', 400), []))"
  using assms
  by (auto simp: compare_faces_view_def compare_faces_body_def effective_user_id_def field_def
      split: option.splits)

lemma example_references [simp]:
  "fb_get_face_encoding example_services (PStr ''u1'') r = Inr (PList [PInt 1, PInt 2])"
  "fb_get_face_encoding example_services (PStr ''u2'') r = Inr PNone"
  by (simp_all add: example_services_def)

text \<open>
  C4, as the code has it. For a request that passes the token check and carries a
  JSON object, naming (or defaulting to) a subject for which the store returns no
  reference encoding: when the body has a captured image the response is the 404
  \<^verbatim>\<open>No reference face found\<close>, after the verification and the lookup only; when it
  has none the response is the 400 \<^verbatim>\<open>No captured image provided\<close>, which is checked
  before the reference is looked up; and in both cases no comparison is called.
\<close>

theorem no_reference_is_404:
  assumes token: "bearer_token req = Some token" "token \<noteq> []"
    and verified: "fb_verify_token svc token = Inr decoded" "truthy decoded"
      "py_subscript decoded ''uid'' = Inr uid" "py_subscript decoded ''email'' = Inr email"
    and body: "get_json req = Inr (PDict kvs)"
    and no_reference: "fb_get_face_encoding svc (effective_user_id kvs uid) True = Inr reference"
      "\<not> truthy reference"
  shows "(truthy (field kvs ''captured_image'') \<longrightarrow>
           compare_faces svc req
             = ((error_body ''No reference face found'', 404),
                [VerifyToken token, GetFaceEncoding (effective_user_id kvs uid) True]))
       \<and> (\<not> truthy (field kvs ''captured_image'') \<longrightarrow>
           compare_faces svc req
             = ((error_body ''No captured image provided'', 400), [VerifyToken token]))
       \<and> (\<forall>w \<in> set (snd (compare_faces svc req)). \<not> is_comparison w)"
proof -
  let ?req = "req\<lparr>user_id := Some uid, user_email := Some email\<rparr>"
  have route: "compare_faces svc req =
      (fst (compare_faces_view svc ?req), VerifyToken token # snd (compare_faces_view svc ?req))"
    unfolding compare_faces_def by (rule token_required_pass[OF token verified])
  have view: "get_json ?req = Inr (PDict kvs)" "request_user_id ?req = Inr uid"
    using body by simp_all
  show ?thesis
    unfolding route compare_faces_view_no_reference[OF view no_reference] by simp
qed

text \<open>The theorem at a captured image for \<^verbatim>\<open>u2\<close>, who has no reference.\<close>

theorem no_reference_is_404_witness:
  "compare_faces example_services
     (example_request ''tok-u1''
        (PDict [(''user_id'', PStr ''u2''), (''captured_image'', PStr ''aW1hZ2U='')]) [])
     = ((error_body ''No reference face found'', 404),
        [VerifyToken ''tok-u1'', GetFaceEncoding (PStr ''u2'') True])"
  using no_reference_is_404[OF bearer_token_example(1) _ example_tokens(1),
      where uid = "PStr ''u1''" and email = "PStr ''u1@example.org''" and reference = PNone
        and kvs = "[(''user_id'', PStr ''u2''), (''captured_image'', PStr ''aW1hZ2U='')]"]
  by (simp add: effective_user_id_def field_def)

text \<open>
  C4 as stated fails for a request that names \<^verbatim>\<open>u2\<close>, who has no reference, and
  carries no captured image: the response is a 400, not a 404.
\<close>

theorem missing_image_precedes_reference:
  "compare_faces example_services
     (example_request ''tok-u1'' (PDict [(''user_id'', PStr ''u2'')]) [])
     = ((error_body ''No captured image provided'', 400), [VerifyToken ''tok-u1''])
   \<and> fb_get_face_encoding example_services (PStr ''u2'') True = Inr PNone"
proof -
  let ?req = "example_request ''tok-u1'' (PDict [(''user_id'', PStr ''u2'')]) []"
  let ?req' = "?req\<lparr>user_id := Some (PStr ''u1''), user_email := Some (PStr ''u1@example.org'')\<rparr>"
  have route: "compare_faces example_services ?req =
      (fst (compare_faces_view example_services ?req'),
       VerifyToken ''tok-u1'' # snd (compare_faces_view example_services ?req'))"
    unfolding compare_faces_def
    by (rule token_required_pass[where
          decoded = "PDict [(''uid'', PStr ''u1''), (''email'', PStr ''u1@example.org'')]"])
       simp_all
  have view: "compare_faces_view example_services ?req'
      = ((error_body ''No captured image provided'', 400), [])"
    by (simp add: compare_faces_view_def compare_faces_body_def)
  show ?thesis unfolding route view by simp
qed

section \<open>The user a request acts for\<close>

lemma route_calls:
  assumes "token_required svc f req = (fst (f req'), VerifyToken token # snd (f req'))"
    and "\<forall>w \<in> set (snd (f req')). call_user w = None \<or> call_user w = Some u"
  shows "\<forall>w \<in> set (snd (token_required svc f req)). call_user w = None \<or> call_user w = Some u"
  using assms by simp

lemma mark_attendance_view_users:
  assumes "get_json req = Inr (PDict kvs)" "request_user_id req = Inr uid"
  shows "\<forall>w \<in> set (snd (mark_attendance_view svc req)).
           call_user w = None \<or> call_user w = Some (effective_user_id kvs uid)"
  unfolding mark_attendance_body_dict[OF assms]
  by (auto simp: Let_def split: sum.splits bool.splits)

lemma compare_faces_view_users:
  assumes "get_json req = Inr (PDict kvs)" "request_user_id req = Inr uid"
  shows "\<forall>w \<in> set (snd (compare_faces_view svc req)).
           call_user w = None \<or> call_user w = Some (effective_user_id kvs uid)"
  using assms
  by (auto simp: compare_faces_view_def compare_faces_body_def effective_user_id_def
      try_except_def bnd_def invoke_def lift_def pure_io_def
      split: sum.splits prod.splits option.splits if_splits)

lemma upload_face_view_users:
  assumes "get_json req = Inr (PDict kvs)" "request_user_id req = Inr uid"
  shows "\<forall>w \<in> set (snd (upload_face_view svc req)).
           call_user w = None \<or> call_user w = Some (effective_user_id kvs uid)"
  using assms
  by (auto simp: upload_face_view_def upload_face_body_def effective_user_id_def Let_def
      try_except_def bnd_def invoke_def lift_def pure_io_def
      split: sum.splits prod.splits option.splits if_splits)

lemma views_default_user:
  assumes "get_json req = Inr (PDict kvs)" "request_user_id req = Inr uid"
    and "map_of kvs ''user_id'' = None"
  shows "upload_face_view svc (req\<lparr>get_json := Inr (PDict ((''user_id'', uid) # kvs))\<rparr>)
           = upload_face_view svc req"
    and "compare_faces_view svc (req\<lparr>get_json := Inr (PDict ((''user_id'', uid) # kvs))\<rparr>)
           = compare_faces_view svc req"
    and "mark_attendance_view svc (req\<lparr>get_json := Inr (PDict ((''user_id'', uid) # kvs))\<rparr>)
           = mark_attendance_view svc req"
  using assms
  by (simp_all add: upload_face_view_def upload_face_body_def compare_faces_view_def
      compare_faces_body_def mark_attendance_view_def mark_attendance_body_def
      request_user_id_def)

lemma mark_attendance_view_calls:
  assumes "get_json req = Inr (PDict kvs)" "request_user_id req = Inr uid"
    and "map_of kvs ''confidence'' = Some c" "py_lt_int c 60 = Inr False"
  shows "snd (mark_attendance_view svc req)
           = [MarkAttendance (effective_user_id kvs uid) c (field kvs ''timestamp'')]"
  unfolding mark_attendance_body_dict[OF assms(1,2)] using assms(3,4)
  by (simp add: Let_def split: sum.splits)

lemma compare_faces_view_lookup:
  assumes "get_json req = Inr (PDict kvs)" "request_user_id req = Inr uid"
    and "truthy (field kvs ''captured_image'')"
  shows "take 1 (snd (compare_faces_view svc req))
           = [GetFaceEncoding (effective_user_id kvs uid) True]"
  using assms
  unfolding field_def effective_user_id_def
  by (cases "fb_get_face_encoding svc (case map_of kvs ''user_id'' of None \<Rightarrow> uid | Some v \<Rightarrow> v)
               True")
     (simp_all add: compare_faces_view_def compare_faces_body_def snd_try_except)

lemma compare_faces_view_calls:
  assumes "get_json req = Inr (PDict kvs)" "request_user_id req = Inr uid"
    and "truthy (field kvs ''captured_image'')"
    and "fb_get_face_encoding svc (effective_user_id kvs uid) True = Inr reference"
      "truthy reference"
    and "fs_encode_face_from_base64 svc (field kvs ''captured_image'') = Inr (encoding, message)"
      "truthy encoding"
    and "fs_compare_faces svc reference encoding = Inr result"
  shows "snd (compare_faces_view svc req)
           = [GetFaceEncoding (effective_user_id kvs uid) True,
              EncodeFace (field kvs ''captured_image''),
              CompareFaces reference encoding,
              SaveFaceEncoding (effective_user_id kvs uid) encoding (PBool False)]"
  using assms
  unfolding field_def effective_user_id_def
  by (cases "fb_save_face_encoding svc (case map_of kvs ''user_id'' of None \<Rightarrow> uid | Some v \<Rightarrow> v)
               encoding (PBool False)")
     (simp_all add: compare_faces_view_def compare_faces_body_def snd_try_except)

lemma upload_face_view_save:
  assumes "get_json req = Inr (PDict kvs)" "request_user_id req = Inr uid"
    and "truthy (field kvs ''image_data'')"
    and "fs_validate_face_quality svc (field kvs ''image_data'') = Inr (True, quality_message)"
    and "fs_encode_face_from_base64 svc (field kvs ''image_data'') = Inr (encoding, message)"
      "truthy encoding"
  shows "take 3 (snd (upload_face_view svc req))
           = [ValidateFaceQuality (field kvs ''image_data''),
              EncodeFace (field kvs ''image_data''),
              SaveFaceEncoding (effective_user_id kvs uid) encoding (is_reference_of kvs)]"
  using assms
  unfolding field_def effective_user_id_def is_reference_of_def
  by (cases "fb_save_face_encoding svc (case map_of kvs ''user_id'' of None \<Rightarrow> uid | Some v \<Rightarrow> v)
               encoding
               (case map_of kvs ''is_reference'' of None \<Rightarrow> PBool False | Some v \<Rightarrow> v)")
     (simp_all add: upload_face_view_def upload_face_body_def Let_def snd_try_except)


text \<open>
  C9. For a request to \<^verbatim>\<open>/upload_face\<close>, \<^verbatim>\<open>/compare_faces\<close> or \<^verbatim>\<open>/mark_attendance\<close>
  that passes the token check and carries a JSON object, let \<open>u\<close> be the \<^verbatim>\<open>user_id\<close>
  of the body, exactly as given, or the verified subject's \<^verbatim>\<open>uid\<close> when the body has
  no such key. The handler acts for \<open>u\<close>: \<^verbatim>\<open>/mark_attendance\<close>, past the confidence
  gate, makes one storage call, the attendance write for \<open>u\<close>; \<^verbatim>\<open>/compare_faces\<close>,
  given a captured image, first looks up the reference encoding of \<open>u\<close>, and when the
  comparison is made saves the captured encoding for \<open>u\<close>; \<^verbatim>\<open>/upload_face\<close>, once the
  image is validated and encoded, saves the encoding for \<open>u\<close> and, when that is saved,
  uploads the image for \<open>u\<close>. No call of the three routes is made for another user,
  and a body without the key is answered, call for call, as the same body with the
  subject's \<^verbatim>\<open>uid\<close> put in as \<^verbatim>\<open>user_id\<close>.
\<close>

theorem user_id_defaults_to_subject:
  assumes token: "bearer_token req = Some token" "token \<noteq> []"
    and verified: "fb_verify_token svc token = Inr decoded" "truthy decoded"
      "py_subscript decoded ''uid'' = Inr uid" "py_subscript decoded ''email'' = Inr email"
    and body: "get_json req = Inr (PDict kvs)"
    and user: "map_of kvs ''user_id'' = Some u \<or> map_of kvs ''user_id'' = None \<and> u = uid"
  shows "(map_of kvs ''confidence'' = Some c \<and> py_lt_int c 60 = Inr False \<longrightarrow>
            snd (mark_attendance svc req)
              = [VerifyToken token, MarkAttendance u c (field kvs ''timestamp'')])
       \<and> (truthy (field kvs ''captured_image'') \<longrightarrow>
            take 2 (snd (compare_faces svc req))
              = [VerifyToken token, GetFaceEncoding u True])
       \<and> (truthy (field kvs ''captured_image'')
            \<and> fb_get_face_encoding svc u True = Inr reference \<and> truthy reference
            \<and> fs_encode_face_from_base64 svc (field kvs ''captured_image'')
                = Inr (captured, message) \<and> truthy captured
            \<and> fs_compare_faces svc reference captured = Inr result \<longrightarrow>
            snd (compare_faces svc req)
              = [VerifyToken token, GetFaceEncoding u True,
                 EncodeFace (field kvs ''captured_image''),
                 CompareFaces reference captured,
                 SaveFaceEncoding u captured (PBool False)])
       \<and> (truthy (field kvs ''image_data'')
            \<and> fs_validate_face_quality svc (field kvs ''image_data'')
                = Inr (True, quality_message)
            \<and> fs_encode_face_from_base64 svc (field kvs ''image_data'')
                = Inr (encoding, message') \<and> truthy encoding \<longrightarrow>
            take 4 (snd (upload_face svc req))
              = [VerifyToken token, ValidateFaceQuality (field kvs ''image_data''),
                 EncodeFace (field kvs ''image_data''),
                 SaveFaceEncoding u encoding (is_reference_of kvs)]
            \<and> (fb_save_face_encoding svc u encoding (is_reference_of kvs) = Inr saved
                 \<and> truthy saved \<longrightarrow>
               snd (upload_face svc req)
                 = [VerifyToken token, ValidateFaceQuality (field kvs ''image_data''),
                    EncodeFace (field kvs ''image_data''),
                    SaveFaceEncoding u encoding (is_reference_of kvs),
                    UploadImage (field kvs ''image_data'') u (image_type_of kvs)]))
       \<and> (\<forall>w \<in> set (snd (upload_face svc req)). call_user w = None \<or> call_user w = Some u)
       \<and> (\<forall>w \<in> set (snd (compare_faces svc req)). call_user w = None \<or> call_user w = Some u)
       \<and> (\<forall>w \<in> set (snd (mark_attendance svc req)). call_user w = None \<or> call_user w = Some u)
       \<and> (map_of kvs ''user_id'' = None \<longrightarrow>
            upload_face svc req
              = upload_face svc (req\<lparr>get_json := Inr (PDict ((''user_id'', uid) # kvs))\<rparr>)
          \<and> compare_faces svc req
              = compare_faces svc (req\<lparr>get_json := Inr (PDict ((''user_id'', uid) # kvs))\<rparr>)
          \<and> mark_attendance svc req
              = mark_attendance svc (req\<lparr>get_json := Inr (PDict ((''user_id'', uid) # kvs))\<rparr>))"
proof -
  let ?req = "req\<lparr>user_id := Some uid, user_email := Some email\<rparr>"
  let ?explicit = "req\<lparr>get_json := Inr (PDict ((''user_id'', uid) # kvs))\<rparr>"
  have view: "get_json ?req = Inr (PDict kvs)" "request_user_id ?req = Inr uid"
    using body by simp_all
  have u: "effective_user_id kvs uid = u"
    using user by (auto simp: effective_user_id_def)
  note pass = token_required_pass[OF token verified]
  have token': "bearer_token ?explicit = Some token"
    using token(1) by (simp add: bearer_token_def)
  note pass' = token_required_pass[OF token' token(2) verified]
  have swap: "?explicit\<lparr>user_id := Some uid, user_email := Some email\<rparr>
      = ?req\<lparr>get_json := Inr (PDict ((''user_id'', uid) # kvs))\<rparr>"
    by simp
  have mark: "snd (mark_attendance svc req)
      = [VerifyToken token, MarkAttendance u c (field kvs ''timestamp'')]"
    if "map_of kvs ''confidence'' = Some c \<and> py_lt_int c 60 = Inr False"
    using mark_attendance_view_calls[OF view, of c svc] that
    unfolding mark_attendance_def pass u by simp
  have lookup: "take 2 (snd (compare_faces svc req))
      = [VerifyToken token, GetFaceEncoding u True]"
    if "truthy (field kvs ''captured_image'')"
    using compare_faces_view_lookup[OF view that, of svc]
    unfolding compare_faces_def pass u by (simp add: numeral_2_eq_2)
  have compare: "snd (compare_faces svc req)
      = [VerifyToken token, GetFaceEncoding u True, EncodeFace (field kvs ''captured_image''),
         CompareFaces reference captured, SaveFaceEncoding u captured (PBool False)]"
    if "truthy (field kvs ''captured_image'')
        \<and> fb_get_face_encoding svc u True = Inr reference \<and> truthy reference
        \<and> fs_encode_face_from_base64 svc (field kvs ''captured_image'')
            = Inr (captured, message) \<and> truthy captured
        \<and> fs_compare_faces svc reference captured = Inr result"
    using compare_faces_view_calls[OF view, of svc reference captured message result] that
    unfolding compare_faces_def pass u by simp
  have save: "take 4 (snd (upload_face svc req))
      = [VerifyToken token, ValidateFaceQuality (field kvs ''image_data''),
         EncodeFace (field kvs ''image_data''),
         SaveFaceEncoding u encoding (is_reference_of kvs)]"
    if "truthy (field kvs ''image_data'')
        \<and> fs_validate_face_quality svc (field kvs ''image_data'') = Inr (True, quality_message)
        \<and> fs_encode_face_from_base64 svc (field kvs ''image_data'') = Inr (encoding, message')
        \<and> truthy encoding"
    using upload_face_view_save[OF view, of svc quality_message encoding message'] that
    unfolding upload_face_def pass u by (simp add: numeral_eq_Suc)
  have upload: "snd (upload_face svc req)
      = [VerifyToken token, ValidateFaceQuality (field kvs ''image_data''),
         EncodeFace (field kvs ''image_data''),
         SaveFaceEncoding u encoding (is_reference_of kvs),
         UploadImage (field kvs ''image_data'') u (image_type_of kvs)]"
    if "truthy (field kvs ''image_data'')
        \<and> fs_validate_face_quality svc (field kvs ''image_data'') = Inr (True, quality_message)
        \<and> fs_encode_face_from_base64 svc (field kvs ''image_data'') = Inr (encoding, message')
        \<and> truthy encoding"
      "fb_save_face_encoding svc u encoding (is_reference_of kvs) = Inr saved \<and> truthy saved"
    using upload_face_view_saved[OF view, of svc quality_message encoding message' saved] that
    unfolding upload_face_def pass u by simp
  have users: "\<forall>w \<in> set (snd (upload_face svc req)). call_user w = None \<or> call_user w = Some u"
    "\<forall>w \<in> set (snd (compare_faces svc req)). call_user w = None \<or> call_user w = Some u"
    "\<forall>w \<in> set (snd (mark_attendance svc req)). call_user w = None \<or> call_user w = Some u"
    unfolding upload_face_def compare_faces_def mark_attendance_def u[symmetric]
    by (rule route_calls[OF pass], rule upload_face_view_users[OF view],
        rule route_calls[OF pass], rule compare_faces_view_users[OF view],
        rule route_calls[OF pass], rule mark_attendance_view_users[OF view])
  have same: "upload_face svc req = upload_face svc ?explicit"
    "compare_faces svc req = compare_faces svc ?explicit"
    "mark_attendance svc req = mark_attendance svc ?explicit"
    if "map_of kvs ''user_id'' = None"
    unfolding upload_face_def compare_faces_def mark_attendance_def pass pass' swap
      views_default_user[OF view that]
    by simp_all
  show ?thesis using mark lookup compare save upload users same by blast
qed


text \<open>
  The theorem at the three routes, each with a body that names no user (the calls are
  made for the subject \<^verbatim>\<open>u1\<close>) and with a body that names \<^verbatim>\<open>u2\<close> (the calls are made
  for \<^verbatim>\<open>u2\<close>, who has no reference encoding).
\<close>

theorem user_id_defaults_to_subject_witness:
  "snd (mark_attendance example_services
          (example_request ''tok-u1'' (PDict [(''confidence'', PInt 85)]) []))
     = [VerifyToken ''tok-u1'', MarkAttendance (PStr ''u1'') (PInt 85) PNone]
   \<and> snd (mark_attendance example_services
          (example_request ''tok-u1''
             (PDict [(''user_id'', PStr ''u2''), (''confidence'', PInt 85)]) []))
     = [VerifyToken ''tok-u1'', MarkAttendance (PStr ''u2'') (PInt 85) PNone]
   \<and> snd (compare_faces example_services
          (example_request ''tok-u1'' (PDict [(''captured_image'', PStr ''aW1hZ2U='')]) []))
     = [VerifyToken ''tok-u1'', GetFaceEncoding (PStr ''u1'') True,
        EncodeFace (PStr ''aW1hZ2U=''),
        CompareFaces (PList [PInt 1, PInt 2]) (PList [PInt 1, PInt 2]),
        SaveFaceEncoding (PStr ''u1'') (PList [PInt 1, PInt 2]) (PBool False)]
   \<and> take 2 (snd (compare_faces example_services
          (example_request ''tok-u1''
             (PDict [(''user_id'', PStr ''u2''), (''captured_image'', PStr ''aW1hZ2U='')]) [])))
     = [VerifyToken ''tok-u1'', GetFaceEncoding (PStr ''u2'') True]
   \<and> snd (upload_face example_services
          (example_request ''tok-u1'' (PDict [(''image_data'', PStr ''aW1hZ2U='')]) []))
     = [VerifyToken ''tok-u1'', ValidateFaceQuality (PStr ''aW1hZ2U=''),
        EncodeFace (PStr ''aW1hZ2U=''),
        SaveFaceEncoding (PStr ''u1'') (PList [PInt 1, PInt 2]) (PBool False),
        UploadImage (PStr ''aW1hZ2U='') (PStr ''u1'') ''captured'']
   \<and> snd (upload_face example_services
          (example_request ''tok-u1''
             (PDict [(''user_id'', PStr ''u2''), (''image_data'', PStr ''aW1hZ2U='')]) []))
     = [VerifyToken ''tok-u1'', ValidateFaceQuality (PStr ''aW1hZ2U=''),
        EncodeFace (PStr ''aW1hZ2U=''),
        SaveFaceEncoding (PStr ''u2'') (PList [PInt 1, PInt 2]) (PBool False),
        UploadImage (PStr ''aW1hZ2U='') (PStr ''u2'') ''captured'']"
proof -
  note at = user_id_defaults_to_subject[
      where token = "''tok-u1''" and svc = example_services
        and decoded = "PDict [(''uid'', PStr ''u1''), (''email'', PStr ''u1@example.org'')]"
        and uid = "PStr ''u1''" and email = "PStr ''u1@example.org''"
        and c = "PInt 85" and reference = "PList [PInt 1, PInt 2]"
        and captured = "PList [PInt 1, PInt 2]"
        and message = "PStr ''Face encoded successfully''"
        and result = "PDict [(''is_match'', PBool True), (''confidence'', PInt 97)]"
        and quality_message = "''Face quality is good''"
        and encoding = "PList [PInt 1, PInt 2]"
        and message' = "PStr ''Face encoded successfully''"
        and saved = "PBool True"]
  note [simp] = field_def is_reference_of_def image_type_of_def example_face_calls
  have m1: "snd (mark_attendance example_services
          (example_request ''tok-u1'' (PDict [(''confidence'', PInt 85)]) []))
     = [VerifyToken ''tok-u1'', MarkAttendance (PStr ''u1'') (PInt 85) PNone]"
    using at[where req = "example_request ''tok-u1'' (PDict [(''confidence'', PInt 85)]) []"
        and kvs = "[(''confidence'', PInt 85)]" and u = "PStr ''u1''", simplified]
    by blast
  have m2: "snd (mark_attendance example_services
          (example_request ''tok-u1''
             (PDict [(''user_id'', PStr ''u2''), (''confidence'', PInt 85)]) []))
     = [VerifyToken ''tok-u1'', MarkAttendance (PStr ''u2'') (PInt 85) PNone]"
    using at[where req = "example_request ''tok-u1''
             (PDict [(''user_id'', PStr ''u2''), (''confidence'', PInt 85)]) []"
        and kvs = "[(''user_id'', PStr ''u2''), (''confidence'', PInt 85)]"
        and u = "PStr ''u2''", simplified]
    by blast
  have c1: "snd (compare_faces example_services
          (example_request ''tok-u1'' (PDict [(''captured_image'', PStr ''aW1hZ2U='')]) []))
     = [VerifyToken ''tok-u1'', GetFaceEncoding (PStr ''u1'') True,
        EncodeFace (PStr ''aW1hZ2U=''),
        CompareFaces (PList [PInt 1, PInt 2]) (PList [PInt 1, PInt 2]),
        SaveFaceEncoding (PStr ''u1'') (PList [PInt 1, PInt 2]) (PBool False)]"
    using at[where req = "example_request ''tok-u1''
             (PDict [(''captured_image'', PStr ''aW1hZ2U='')]) []"
        and kvs = "[(''captured_image'', PStr ''aW1hZ2U='')]" and u = "PStr ''u1''",
        simplified]
    by blast
  have c2: "take 2 (snd (compare_faces example_services
          (example_request ''tok-u1''
             (PDict [(''user_id'', PStr ''u2''), (''captured_image'', PStr ''aW1hZ2U='')]) [])))
     = [VerifyToken ''tok-u1'', GetFaceEncoding (PStr ''u2'') True]"
    using at[where req = "example_request ''tok-u1''
             (PDict [(''user_id'', PStr ''u2''), (''captured_image'', PStr ''aW1hZ2U='')]) []"
        and kvs = "[(''user_id'', PStr ''u2''), (''captured_image'', PStr ''aW1hZ2U='')]"
        and u = "PStr ''u2''", simplified]
    by blast
  have u1: "snd (upload_face example_services
          (example_request ''tok-u1'' (PDict [(''image_data'', PStr ''aW1hZ2U='')]) []))
     = [VerifyToken ''tok-u1'', ValidateFaceQuality (PStr ''aW1hZ2U=''),
        EncodeFace (PStr ''aW1hZ2U=''),
        SaveFaceEncoding (PStr ''u1'') (PList [PInt 1, PInt 2]) (PBool False),
        UploadImage (PStr ''aW1hZ2U='') (PStr ''u1'') ''captured'']"
    using at[where req = "example_request ''tok-u1''
             (PDict [(''image_data'', PStr ''aW1hZ2U='')]) []"
        and kvs = "[(''image_data'', PStr ''aW1hZ2U='')]" and u = "PStr ''u1''",
        simplified]
    by blast
  have u2: "snd (upload_face example_services
          (example_request ''tok-u1''
             (PDict [(''user_id'', PStr ''u2''), (''image_data'', PStr ''aW1hZ2U='')]) []))
     = [VerifyToken ''tok-u1'', ValidateFaceQuality (PStr ''aW1hZ2U=''),
        EncodeFace (PStr ''aW1hZ2U=''),
        SaveFaceEncoding (PStr ''u2'') (PList [PInt 1, PInt 2]) (PBool False),
        UploadImage (PStr ''aW1hZ2U='') (PStr ''u2'') ''captured'']"
    using at[where req = "example_request ''tok-u1''
             (PDict [(''user_id'', PStr ''u2''), (''image_data'', PStr ''aW1hZ2U='')]) []"
        and kvs = "[(''user_id'', PStr ''u2''), (''image_data'', PStr ''aW1hZ2U='')]"
        and u = "PStr ''u2''", simplified]
    by blast
  show ?thesis using m1 m2 c1 c2 u1 u2 by simp
qed

section \<open>Where exceptions end\<close>

lemma admin_check_lookup_raises:
  assumes "fb_verify_token svc token = Inr decoded" "truthy decoded"
    and "py_subscript decoded ''uid'' = Inr uid"
    and "sb_get_user_data svc uid = Inl e"
  shows "admin_check svc token req = (Inl e, [VerifyToken token, GetUserData uid])"
  using assms by (simp add: admin_check_def)

lemma upload_face_view_raises:
  assumes "get_json req = Inr (PDict kvs)" "request_user_id req = Inr uid"
    and "truthy (field kvs ''image_data'')"
  shows "fs_validate_face_quality svc (field kvs ''image_data'') = Inl e \<Longrightarrow>
           upload_face_view svc req
             = ((error_body (str_exn e), 500), [ValidateFaceQuality (field kvs ''image_data'')])"
    and "fs_validate_face_quality svc (field kvs ''image_data'') = Inr (True, quality_message)
         \<Longrightarrow> fs_encode_face_from_base64 svc (field kvs ''image_data'') = Inl e \<Longrightarrow>
           upload_face_view svc req
             = ((error_body (str_exn e), 500),
                [ValidateFaceQuality (field kvs ''image_data''),
                 EncodeFace (field kvs ''image_data'')])"
    and "fs_validate_face_quality svc (field kvs ''image_data'') = Inr (True, quality_message)
         \<Longrightarrow> fs_encode_face_from_base64 svc (field kvs ''image_data'') = Inr (encoding, message)
         \<Longrightarrow> truthy encoding
         \<Longrightarrow> fb_save_face_encoding svc (effective_user_id kvs uid) encoding
               (is_reference_of kvs) = Inl e \<Longrightarrow>
           upload_face_view svc req
             = ((error_body (str_exn e), 500),
                [ValidateFaceQuality (field kvs ''image_data''),
                 EncodeFace (field kvs ''image_data''),
                 SaveFaceEncoding (effective_user_id kvs uid) encoding (is_reference_of kvs)])"
    and "fs_validate_face_quality svc (field kvs ''image_data'') = Inr (True, quality_message)
         \<Longrightarrow> fs_encode_face_from_base64 svc (field kvs ''image_data'') = Inr (encoding, message)
         \<Longrightarrow> truthy encoding
         \<Longrightarrow> fb_save_face_encoding svc (effective_user_id kvs uid) encoding
               (is_reference_of kvs) = Inr saved
         \<Longrightarrow> truthy saved
         \<Longrightarrow> fb_upload_image svc (field kvs ''image_data'') (effective_user_id kvs uid)
               (image_type_of kvs) = Inl e \<Longrightarrow>
           upload_face_view svc req
             = ((error_body (str_exn e), 500),
                [ValidateFaceQuality (field kvs ''image_data''),
                 EncodeFace (field kvs ''image_data''),
                 SaveFaceEncoding (effective_user_id kvs uid) encoding (is_reference_of kvs),
                 UploadImage (field kvs ''image_data'') (effective_user_id kvs uid)
                   (image_type_of kvs)])"
  using assms
  unfolding field_def effective_user_id_def is_reference_of_def image_type_of_def
  by (simp_all add: upload_face_view_def upload_face_body_def Let_def)

lemma compare_faces_view_raises:
  assumes "get_json req = Inr (PDict kvs)" "request_user_id req = Inr uid"
    and "truthy (field kvs ''captured_image'')"
  shows "fb_get_face_encoding svc (effective_user_id kvs uid) True = Inl e \<Longrightarrow>
           compare_faces_view svc req
             = ((error_body (str_exn e), 500),
                [GetFaceEncoding (effective_user_id kvs uid) True])"
    and "fb_get_face_encoding svc (effective_user_id kvs uid) True = Inr reference
         \<Longrightarrow> truthy reference
         \<Longrightarrow> fs_encode_face_from_base64 svc (field kvs ''captured_image'') = Inl e \<Longrightarrow>
           compare_faces_view svc req
             = ((error_body (str_exn e), 500),
                [GetFaceEncoding (effective_user_id kvs uid) True,
                 EncodeFace (field kvs ''captured_image'')])"
    and "fb_get_face_encoding svc (effective_user_id kvs uid) True = Inr reference
         \<Longrightarrow> truthy reference
         \<Longrightarrow> fs_encode_face_from_base64 svc (field kvs ''captured_image'')
               = Inr (captured, message)
         \<Longrightarrow> truthy captured
         \<Longrightarrow> fs_compare_faces svc reference captured = Inl e \<Longrightarrow>
           compare_faces_view svc req
             = ((error_body (str_exn e), 500),
                [GetFaceEncoding (effective_user_id kvs uid) True,
                 EncodeFace (field kvs ''captured_image''),
                 CompareFaces reference captured])"
    and "fb_get_face_encoding svc (effective_user_id kvs uid) True = Inr reference
         \<Longrightarrow> truthy reference
         \<Longrightarrow> fs_encode_face_from_base64 svc (field kvs ''captured_image'')
               = Inr (captured, message)
         \<Longrightarrow> truthy captured
         \<Longrightarrow> fs_compare_faces svc reference captured = Inr result
         \<Longrightarrow> fb_save_face_encoding svc (effective_user_id kvs uid) captured (PBool False)
               = Inl e \<Longrightarrow>
           compare_faces_view svc req
             = ((error_body (str_exn e), 500),
                [GetFaceEncoding (effective_user_id kvs uid) True,
                 EncodeFace (field kvs ''captured_image''),
                 CompareFaces reference captured,
                 SaveFaceEncoding (effective_user_id kvs uid) captured (PBool False)])"
  using assms
  unfolding field_def effective_user_id_def
  by (simp_all add: compare_faces_view_def compare_faces_body_def)

lemma mark_attendance_view_raises:
  assumes "get_json req = Inr (PDict kvs)" "request_user_id req = Inr uid"
    and "map_of kvs ''confidence'' = Some c" "py_lt_int c 60 = Inr False"
    and "fb_mark_attendance svc (effective_user_id kvs uid) c (field kvs ''timestamp'') = Inl e"
  shows "mark_attendance_view svc req
           = ((error_body (str_exn e), 500),
              [MarkAttendance (effective_user_id kvs uid) c (field kvs ''timestamp'')])"
  unfolding mark_attendance_body_dict[OF assms(1,2)] using assms(3-5)
  by (simp add: Let_def)

lemma reporting_views_raise:
  shows "parse_filter rt (map_of (args req) ''start_date'') = Inr start_date
         \<Longrightarrow> parse_filter rt (map_of (args req) ''end_date'') = Inr end_date
         \<Longrightarrow> fb_get_attendance_records svc start_date end_date = Inl e \<Longrightarrow>
           get_attendance_records_view rt svc req
             = ((error_body (str_exn e), 500), [GetAttendanceRecords start_date end_date])"
    and "fb_get_all_users svc = Inl e \<Longrightarrow>
           get_users_view svc req = ((error_body (str_exn e), 500), [GetAllUsers])"
    and "add_one_day (midnight (now rt 0)) = Inr today_end
         \<Longrightarrow> fb_get_attendance_records svc (Date (midnight (now rt 0))) (Date today_end) = Inl e
         \<Longrightarrow> get_system_stats_view rt svc req
             = ((error_body (str_exn e), 500),
                [GetAttendanceRecords (Date (midnight (now rt 0))) (Date today_end)])"
    and "add_one_day (midnight (now rt 0)) = Inr today_end
         \<Longrightarrow> fb_get_attendance_records svc (Date (midnight (now rt 0))) (Date today_end)
               = Inr today_records
         \<Longrightarrow> fb_get_all_users svc = Inl e
         \<Longrightarrow> get_system_stats_view rt svc req
             = ((error_body (str_exn e), 500),
                [GetAttendanceRecords (Date (midnight (now rt 0))) (Date today_end),
                 GetAllUsers])"
  by (simp_all add: get_attendance_records_view_def get_attendance_records_body_def
      get_users_view_def get_users_body_def get_system_stats_view_def
      get_system_stats_body_def Let_def)


text \<open>
  C5, as the code has it. Every call a view makes to the face service or to the storage
  is inside the view's \<^verbatim>\<open>try\<close> block: when the call raises, no later call is made and
  the response is a 500 with the text of the exception. This is stated call by call, for
  a request that has passed the decorator: the quality check, the encoder, the encoding
  save and the image upload of \<^verbatim>\<open>/upload_face\<close>; the reference lookup, the encoder, the
  comparison and the encoding save of \<^verbatim>\<open>/compare_faces\<close>; the attendance write of
  \<^verbatim>\<open>/mark_attendance\<close>; the reads of \<^verbatim>\<open>/attendance_records\<close>, \<^verbatim>\<open>/users\<close> and
  \<^verbatim>\<open>/system_stats\<close>. An exception raised by the token verification, under either
  decorator, or by the admin role lookup is reported by the decorator as a 401 with its
  text, and the view is not run. The two open routes call no collaborator.
\<close>

theorem exceptions_reported_with_text:
  "(bearer_token req = Some token \<and> token \<noteq> []
      \<and> fb_verify_token svc token = Inr decoded \<and> truthy decoded
      \<and> py_subscript decoded ''uid'' = Inr uid \<and> py_subscript decoded ''email'' = Inr email
      \<and> get_json req = Inr (PDict kvs) \<longrightarrow>
     (truthy (field kvs ''image_data'') \<longrightarrow>
        (fs_validate_face_quality svc (field kvs ''image_data'') = Inl e \<longrightarrow>
           upload_face svc req
             = ((error_body (str_exn e), 500),
                [VerifyToken token, ValidateFaceQuality (field kvs ''image_data'')]))
      \<and> (fs_validate_face_quality svc (field kvs ''image_data'') = Inr (True, quality_message)
           \<longrightarrow>
           (fs_encode_face_from_base64 svc (field kvs ''image_data'') = Inl e \<longrightarrow>
              upload_face svc req
                = ((error_body (str_exn e), 500),
                   [VerifyToken token, ValidateFaceQuality (field kvs ''image_data''),
                    EncodeFace (field kvs ''image_data'')]))
         \<and> (fs_encode_face_from_base64 svc (field kvs ''image_data'') = Inr (encoding, message)
              \<and> truthy encoding \<longrightarrow>
              (fb_save_face_encoding svc (effective_user_id kvs uid) encoding
                 (is_reference_of kvs) = Inl e \<longrightarrow>
                 upload_face svc req
                   = ((error_body (str_exn e), 500),
                      [VerifyToken token, ValidateFaceQuality (field kvs ''image_data''),
                       EncodeFace (field kvs ''image_data''),
                       SaveFaceEncoding (effective_user_id kvs uid) encoding
                         (is_reference_of kvs)]))
            \<and> (fb_save_face_encoding svc (effective_user_id kvs uid) encoding
                 (is_reference_of kvs) = Inr saved \<and> truthy saved
                 \<and> fb_upload_image svc (field kvs ''image_data'') (effective_user_id kvs uid)
                     (image_type_of kvs) = Inl e \<longrightarrow>
                 upload_face svc req
                   = ((error_body (str_exn e), 500),
                      [VerifyToken token, ValidateFaceQuality (field kvs ''image_data''),
                       EncodeFace (field kvs ''image_data''),
                       SaveFaceEncoding (effective_user_id kvs uid) encoding
                         (is_reference_of kvs),
                       UploadImage (field kvs ''image_data'') (effective_user_id kvs uid)
                         (image_type_of kvs)])))))
   \<and> (truthy (field kvs ''captured_image'') \<longrightarrow>
        (fb_get_face_encoding svc (effective_user_id kvs uid) True = Inl e \<longrightarrow>
           compare_faces svc req
             = ((error_body (str_exn e), 500),
                [VerifyToken token, GetFaceEncoding (effective_user_id kvs uid) True]))
      \<and> (fb_get_face_encoding svc (effective_user_id kvs uid) True = Inr reference
           \<and> truthy reference \<longrightarrow>
           (fs_encode_face_from_base64 svc (field kvs ''captured_image'') = Inl e \<longrightarrow>
              compare_faces svc req
                = ((error_body (str_exn e), 500),
                   [VerifyToken token, GetFaceEncoding (effective_user_id kvs uid) True,
                    EncodeFace (field kvs ''captured_image'')]))
         \<and> (fs_encode_face_from_base64 svc (field kvs ''captured_image'')
                = Inr (captured, message') \<and> truthy captured \<longrightarrow>
              (fs_compare_faces svc reference captured = Inl e \<longrightarrow>
                 compare_faces svc req
                   = ((error_body (str_exn e), 500),
                      [VerifyToken token, GetFaceEncoding (effective_user_id kvs uid) True,
                       EncodeFace (field kvs ''captured_image''),
                       CompareFaces reference captured]))
            \<and> (fs_compare_faces svc reference captured = Inr result
                 \<and> fb_save_face_encoding svc (effective_user_id kvs uid) captured
                     (PBool False) = Inl e \<longrightarrow>
                 compare_faces svc req
                   = ((error_body (str_exn e), 500),
                      [VerifyToken token, GetFaceEncoding (effective_user_id kvs uid) True,
                       EncodeFace (field kvs ''captured_image''),
                       CompareFaces reference captured,
                       SaveFaceEncoding (effective_user_id kvs uid) captured
                         (PBool False)])))))
   \<and> (map_of kvs ''confidence'' = Some c \<and> py_lt_int c 60 = Inr False
        \<and> fb_mark_attendance svc (effective_user_id kvs uid) c (field kvs ''timestamp'')
            = Inl e \<longrightarrow>
        mark_attendance svc req
          = ((error_body (str_exn e), 500),
             [VerifyToken token,
              MarkAttendance (effective_user_id kvs uid) c (field kvs ''timestamp'')])))
   \<and> (bearer_token req = Some token \<and> token \<noteq> []
      \<and> fb_verify_token svc token = Inr decoded \<and> truthy decoded
      \<and> py_subscript decoded ''uid'' = Inr uid \<and> py_subscript decoded ''email'' = Inr email
      \<and> sb_get_user_data svc uid = Inr (PDict ukvs)
      \<and> map_of ukvs ''role'' = Some (PStr ''admin'') \<longrightarrow>
     (parse_filter rt (map_of (args req) ''start_date'') = Inr start_date
        \<and> parse_filter rt (map_of (args req) ''end_date'') = Inr end_date
        \<and> fb_get_attendance_records svc start_date end_date = Inl e \<longrightarrow>
        get_attendance_records rt svc req
          = ((error_body (str_exn e), 500),
             [VerifyToken token, GetUserData uid, GetAttendanceRecords start_date end_date]))
   \<and> (fb_get_all_users svc = Inl e \<longrightarrow>
        get_users svc req
          = ((error_body (str_exn e), 500),
             [VerifyToken token, GetUserData uid, GetAllUsers]))
   \<and> (add_one_day (midnight (now rt 0)) = Inr today_end \<longrightarrow>
        (fb_get_attendance_records svc (Date (midnight (now rt 0))) (Date today_end) = Inl e
           \<longrightarrow>
           get_system_stats rt svc req
             = ((error_body (str_exn e), 500),
                [VerifyToken token, GetUserData uid,
                 GetAttendanceRecords (Date (midnight (now rt 0))) (Date today_end)]))
      \<and> (fb_get_attendance_records svc (Date (midnight (now rt 0))) (Date today_end)
             = Inr today_records
           \<and> fb_get_all_users svc = Inl e \<longrightarrow>
           get_system_stats rt svc req
             = ((error_body (str_exn e), 500),
                [VerifyToken token, GetUserData uid,
                 GetAttendanceRecords (Date (midnight (now rt 0))) (Date today_end),
                 GetAllUsers]))))
   \<and> (bearer_token req = Some token \<and> token \<noteq> [] \<and> fb_verify_token svc token = Inl e \<longrightarrow>
      token_required svc f req = ((error_body (str_exn e), 401), [VerifyToken token])
      \<and> admin_required svc f req = ((error_body (str_exn e), 401), [VerifyToken token]))
   \<and> (bearer_token req = Some token \<and> token \<noteq> []
        \<and> fb_verify_token svc token = Inr decoded \<and> truthy decoded
        \<and> py_subscript decoded ''uid'' = Inr uid \<and> sb_get_user_data svc uid = Inl e \<longrightarrow>
      admin_required svc f req
        = ((error_body (str_exn e), 401), [VerifyToken token, GetUserData uid]))
   \<and> snd home = [] \<and> snd (health_check rt) = []"
proof -
  let ?req = "req\<lparr>user_id := Some uid, user_email := Some email\<rparr>"
  have token_routes: "upload_face svc req
        = (fst (upload_face_view svc ?req), VerifyToken token # snd (upload_face_view svc ?req))"
    "compare_faces svc req
        = (fst (compare_faces_view svc ?req), VerifyToken token # snd (compare_faces_view svc ?req))"
    "mark_attendance svc req
        = (fst (mark_attendance_view svc ?req),
           VerifyToken token # snd (mark_attendance_view svc ?req))"
    "get_json ?req = Inr (PDict kvs)" "request_user_id ?req = Inr uid"
    if "bearer_token req = Some token \<and> token \<noteq> []
      \<and> fb_verify_token svc token = Inr decoded \<and> truthy decoded
      \<and> py_subscript decoded ''uid'' = Inr uid \<and> py_subscript decoded ''email'' = Inr email
      \<and> get_json req = Inr (PDict kvs)"
    using that
    by (simp_all add: upload_face_def compare_faces_def mark_attendance_def
        token_required_pass[of req token svc decoded uid email])
  have admin_routes: "get_attendance_records rt svc req
        = (fst (get_attendance_records_view rt svc ?req),
           VerifyToken token # GetUserData uid # snd (get_attendance_records_view rt svc ?req))"
    "get_users svc req
        = (fst (get_users_view svc ?req),
           VerifyToken token # GetUserData uid # snd (get_users_view svc ?req))"
    "get_system_stats rt svc req
        = (fst (get_system_stats_view rt svc ?req),
           VerifyToken token # GetUserData uid # snd (get_system_stats_view rt svc ?req))"
    if "bearer_token req = Some token \<and> token \<noteq> []
      \<and> fb_verify_token svc token = Inr decoded \<and> truthy decoded
      \<and> py_subscript decoded ''uid'' = Inr uid \<and> py_subscript decoded ''email'' = Inr email
      \<and> sb_get_user_data svc uid = Inr (PDict ukvs)
      \<and> map_of ukvs ''role'' = Some (PStr ''admin'')"
    using that
    by (simp_all add: get_attendance_records_def get_users_def get_system_stats_def
        admin_required_pass[of req token svc decoded uid email ukvs])
  have verify: "token_required svc f req = ((error_body (str_exn e), 401), [VerifyToken token])"
    "admin_required svc f req = ((error_body (str_exn e), 401), [VerifyToken token])"
    if "bearer_token req = Some token \<and> token \<noteq> [] \<and> fb_verify_token svc token = Inl e"
    using that
    by (simp_all add: token_required_def admin_required_def guarded_def token_check_def
        admin_check_def)
  have lookup: "admin_required svc f req
        = ((error_body (str_exn e), 401), [VerifyToken token, GetUserData uid])"
    if "bearer_token req = Some token \<and> token \<noteq> []
        \<and> fb_verify_token svc token = Inr decoded \<and> truthy decoded
        \<and> py_subscript decoded ''uid'' = Inr uid \<and> sb_get_user_data svc uid = Inl e"
    using that admin_check_lookup_raises[of svc token decoded uid e req]
    by (simp add: admin_required_def guarded_def)
  have "snd home = []" "snd (health_check rt) = []"
    by (simp_all add: home_def health_check_def)
  then show ?thesis
    using verify lookup
    by (intro conjI impI)
       (simp_all add: token_routes admin_routes
          upload_face_view_raises[OF token_routes(4,5)]
          compare_faces_view_raises[OF token_routes(4,5)]
          mark_attendance_view_raises[OF token_routes(4,5)]
          reporting_views_raise)
qed


text \<open>
  The theorem at an attendance write, an encoder and two reads that raise inside a view
  (500), and at a token verification and a role lookup that raise inside a decorator
  (401).
\<close>

theorem exceptions_reported_with_text_witness:
  "mark_attendance store_down
     (example_request ''tok-u1'' (PDict [(''confidence'', PInt 85)]) [])
     = ((error_body ''write failed'', 500),
        [VerifyToken ''tok-u1'', MarkAttendance (PStr ''u1'') (PInt 85) PNone])
   \<and> compare_faces encoder_down
     (example_request ''tok-u1'' (PDict [(''captured_image'', PStr ''aW1hZ2U='')]) [])
     = ((error_body ''encoder unavailable'', 500),
        [VerifyToken ''tok-u1'', GetFaceEncoding (PStr ''u1'') True,
         EncodeFace (PStr ''aW1hZ2U='')])
   \<and> upload_face encoder_down
     (example_request ''tok-u1'' (PDict [(''image_data'', PStr ''aW1hZ2U='')]) [])
     = ((error_body ''encoder unavailable'', 500),
        [VerifyToken ''tok-u1'', ValidateFaceQuality (PStr ''aW1hZ2U=''),
         EncodeFace (PStr ''aW1hZ2U='')])
   \<and> get_attendance_records example_runtime records_down
     (example_request ''tok-admin'' PNone [])
     = ((error_body ''records unavailable'', 500),
        [VerifyToken ''tok-admin'', GetUserData (PStr ''admin1''),
         GetAttendanceRecords NoDate NoDate])
   \<and> get_users records_down (example_request ''tok-admin'' PNone [])
     = ((error_body ''users unavailable'', 500),
        [VerifyToken ''tok-admin'', GetUserData (PStr ''admin1''), GetAllUsers])
   \<and> mark_attendance provider_down
     (example_request ''tok-u1'' (PDict [(''confidence'', PInt 85)]) [])
     = ((error_body ''identity provider unavailable'', 401), [VerifyToken ''tok-u1''])
   \<and> get_users store_down (example_request ''tok-admin'' PNone [])
     = ((error_body ''user store unavailable'', 401),
        [VerifyToken ''tok-admin'', GetUserData (PStr ''admin1'')])"
proof -
  note [simp] = example_failures example_face_calls field_def effective_user_id_def
    parse_filter_def
  note user = exceptions_reported_with_text[
      where token = "''tok-u1''"
        and decoded = "PDict [(''uid'', PStr ''u1''), (''email'', PStr ''u1@example.org'')]"
        and uid = "PStr ''u1''" and email = "PStr ''u1@example.org''"
        and c = "PInt 85" and reference = "PList [PInt 1, PInt 2]"
        and quality_message = "''Face quality is good''"]
  note admin = exceptions_reported_with_text[
      where req = "example_request ''tok-admin'' PNone []" and token = "''tok-admin''"
        and decoded = "PDict [(''uid'', PStr ''admin1''), (''email'', PStr ''admin1@example.org'')]"
        and uid = "PStr ''admin1''" and email = "PStr ''admin1@example.org''"
        and ukvs = "[(''role'', PStr ''admin'')]" and rt = example_runtime
        and start_date = NoDate and end_date = NoDate]
  have a: "mark_attendance store_down
     (example_request ''tok-u1'' (PDict [(''confidence'', PInt 85)]) [])
     = ((error_body ''write failed'', 500),
        [VerifyToken ''tok-u1'', MarkAttendance (PStr ''u1'') (PInt 85) PNone])"
    using user[where svc = store_down and e = "ServiceError ''write failed''"
        and req = "example_request ''tok-u1'' (PDict [(''confidence'', PInt 85)]) []"
        and kvs = "[(''confidence'', PInt 85)]", simplified]
    by blast
  have b: "compare_faces encoder_down
     (example_request ''tok-u1'' (PDict [(''captured_image'', PStr ''aW1hZ2U='')]) [])
     = ((error_body ''encoder unavailable'', 500),
        [VerifyToken ''tok-u1'', GetFaceEncoding (PStr ''u1'') True,
         EncodeFace (PStr ''aW1hZ2U='')])"
    using user[where svc = encoder_down and e = "ServiceError ''encoder unavailable''"
        and req = "example_request ''tok-u1'' (PDict [(''captured_image'', PStr ''aW1hZ2U='')]) []"
        and kvs = "[(''captured_image'', PStr ''aW1hZ2U='')]", simplified]
    by blast
  have c: "upload_face encoder_down
     (example_request ''tok-u1'' (PDict [(''image_data'', PStr ''aW1hZ2U='')]) [])
     = ((error_body ''encoder unavailable'', 500),
        [VerifyToken ''tok-u1'', ValidateFaceQuality (PStr ''aW1hZ2U=''),
         EncodeFace (PStr ''aW1hZ2U='')])"
    using user[where svc = encoder_down and e = "ServiceError ''encoder unavailable''"
        and req = "example_request ''tok-u1'' (PDict [(''image_data'', PStr ''aW1hZ2U='')]) []"
        and kvs = "[(''image_data'', PStr ''aW1hZ2U='')]", simplified]
    by blast
  have d: "get_attendance_records example_runtime records_down
     (example_request ''tok-admin'' PNone [])
     = ((error_body ''records unavailable'', 500),
        [VerifyToken ''tok-admin'', GetUserData (PStr ''admin1''),
         GetAttendanceRecords NoDate NoDate])"
    using admin[where svc = records_down and e = "ServiceError ''records unavailable''",
        simplified]
    by blast
  have e: "get_users records_down (example_request ''tok-admin'' PNone [])
     = ((error_body ''users unavailable'', 500),
        [VerifyToken ''tok-admin'', GetUserData (PStr ''admin1''), GetAllUsers])"
    using admin[where svc = records_down and e = "ServiceError ''users unavailable''",
        simplified]
    by blast
  have f: "mark_attendance provider_down
     (example_request ''tok-u1'' (PDict [(''confidence'', PInt 85)]) [])
     = ((error_body ''identity provider unavailable'', 401), [VerifyToken ''tok-u1''])"
    using user[where svc = provider_down
        and e = "ServiceError ''identity provider unavailable''"
        and req = "example_request ''tok-u1'' (PDict [(''confidence'', PInt 85)]) []"
        and f = "mark_attendance_view provider_down", simplified]
    unfolding mark_attendance_def by blast
  have g: "get_users store_down (example_request ''tok-admin'' PNone [])
     = ((error_body ''user store unavailable'', 401),
        [VerifyToken ''tok-admin'', GetUserData (PStr ''admin1'')])"
    using admin[where svc = store_down and e = "ServiceError ''user store unavailable''"
        and f = "get_users_view store_down", simplified]
    unfolding get_users_def by blast
  show ?thesis using a b c d e f g by simp
qed

text \<open>
  C5 as stated fails where it says ``in particular'': an identity provider that
  raises on \<^verbatim>\<open>/mark_attendance\<close>, and a user store that raises on \<^verbatim>\<open>/users\<close>, each
  give a 401, not a 500.
\<close>

theorem verification_error_is_401:
  "mark_attendance provider_down
     (example_request ''tok-u1'' (PDict [(''confidence'', PInt 85)]) [])
     = ((error_body ''identity provider unavailable'', 401), [VerifyToken ''tok-u1''])
   \<and> get_users store_down (example_request ''tok-admin'' PNone [])
     = ((error_body ''user store unavailable'', 401),
        [VerifyToken ''tok-admin'', GetUserData (PStr ''admin1'')])"
  by (simp add: mark_attendance_def get_users_def token_required_def admin_required_def
      guarded_def token_check_def admin_check_def provider_down_def store_down_def
      example_services_def)

section \<open>\<^verbatim>\<open>/upload_face\<close> after the encoding is saved\<close>

lemma example_upload:
  assumes "svc = image_store_down \<or> svc = image_store_silent"
  shows "fb_verify_token svc ''tok-u1''
           = Inr (PDict [(''uid'', PStr ''u1''), (''email'', PStr ''u1@example.org'')])"
    and "fs_validate_face_quality svc img = Inr (True, ''Face quality is good'')"
    and "fs_encode_face_from_base64 svc img
           = Inr (PList [PInt 1, PInt 2], PStr ''Face encoded successfully'')"
    and "fb_save_face_encoding svc u encoding is_reference = Inr (PBool True)"
  using assms by (auto simp: image_store_down_def image_store_silent_def example_services_def)

text \<open>
  C7, as the code has it. For a request that passes the token check, carries an image
  that passes the quality check and is encoded, and whose encoding the store saves
  (a truthy answer): the image upload is the last call, and when it raises the response
  is the 500 of the view with the text of the exception and nothing else, and when it
  returns the response is the 200 success with \<^verbatim>\<open>encoding_saved\<close> true and whatever
  the upload returned as \<^verbatim>\<open>image_url\<close>.
\<close>

theorem image_upload_outcome:
  assumes token: "bearer_token req = Some token" "token \<noteq> []"
    and verified: "fb_verify_token svc token = Inr decoded" "truthy decoded"
      "py_subscript decoded ''uid'' = Inr uid" "py_subscript decoded ''email'' = Inr email"
    and body: "get_json req = Inr (PDict kvs)" "truthy (field kvs ''image_data'')"
    and valid: "fs_validate_face_quality svc (field kvs ''image_data'')
                  = Inr (True, quality_message)"
    and encoded: "fs_encode_face_from_base64 svc (field kvs ''image_data'')
                  = Inr (encoding, message)" "truthy encoding"
    and saved: "fb_save_face_encoding svc (effective_user_id kvs uid) encoding
                  (is_reference_of kvs) = Inr saved" "truthy saved"
  shows "upload_face svc req =
           (case fb_upload_image svc (field kvs ''image_data'') (effective_user_id kvs uid)
                   (image_type_of kvs) of
              Inl e \<Rightarrow> (error_body (str_exn e), 500)
            | Inr image_url \<Rightarrow> ok (upload_success_body image_url),
            [VerifyToken token,
             ValidateFaceQuality (field kvs ''image_data''),
             EncodeFace (field kvs ''image_data''),
             SaveFaceEncoding (effective_user_id kvs uid) encoding (is_reference_of kvs),
             UploadImage (field kvs ''image_data'') (effective_user_id kvs uid)
               (image_type_of kvs)])"
proof -
  let ?req = "req\<lparr>user_id := Some uid, user_email := Some email\<rparr>"
  have route: "upload_face svc req =
      (fst (upload_face_view svc ?req), VerifyToken token # snd (upload_face_view svc ?req))"
    unfolding upload_face_def by (rule token_required_pass[OF token verified])
  have view: "get_json ?req = Inr (PDict kvs)" "request_user_id ?req = Inr uid"
    using body by simp_all
  show ?thesis
    unfolding route upload_face_view_saved[OF view body(2) valid encoded saved] by simp
qed

text \<open>The theorem at a reference upload whose image store raises.\<close>

theorem image_upload_outcome_witness:
  "upload_face image_store_down
     (example_request ''tok-u1''
        (PDict [(''image_data'', PStr ''aW1hZ2U=''), (''is_reference'', PBool True)]) [])
   = ((error_body ''bucket unavailable'', 500),
      [VerifyToken ''tok-u1'', ValidateFaceQuality (PStr ''aW1hZ2U=''),
       EncodeFace (PStr ''aW1hZ2U=''),
       SaveFaceEncoding (PStr ''u1'') (PList [PInt 1, PInt 2]) (PBool True),
       UploadImage (PStr ''aW1hZ2U='') (PStr ''u1'') ''reference''])"
proof -
  let ?kvs = "[(''image_data'', PStr ''aW1hZ2U=''), (''is_reference'', PBool True)]"
  have svc: "image_store_down = image_store_down \<or> image_store_down = image_store_silent"
    by simp
  have f: "field ?kvs ''image_data'' = PStr ''aW1hZ2U=''"
    "effective_user_id ?kvs (PStr ''u1'') = PStr ''u1''"
    "is_reference_of ?kvs = PBool True" "image_type_of ?kvs = ''reference''"
    by (simp_all add: field_def effective_user_id_def is_reference_of_def image_type_of_def)
  have up: "fb_upload_image image_store_down i u t = Inl (ServiceError ''bucket unavailable'')"
    for i u t
    by (simp add: image_store_down_def)
  show ?thesis
    using image_upload_outcome[where svc = image_store_down and token = "''tok-u1''"
        and req = "example_request ''tok-u1'' (PDict ?kvs) []" and kvs = ?kvs
        and uid = "PStr ''u1''" and email = "PStr ''u1@example.org''"
        and decoded = "PDict [(''uid'', PStr ''u1''), (''email'', PStr ''u1@example.org'')]"
        and quality_message = "''Face quality is good''"
        and encoding = "PList [PInt 1, PInt 2]" and message = "PStr ''Face encoded successfully''"
        and saved = "PBool True"]
    by (simp add: f up example_upload[OF svc])
qed

text \<open>
  C7 as stated fails either way the image store can fail, after the encoding has been
  saved: when the upload raises, the response is a plain failure that says nothing of
  the saved encoding; when the upload returns \<^verbatim>\<open>None\<close>, the response is the full
  success with a null \<^verbatim>\<open>image_url\<close>.
\<close>

theorem image_failure_not_reported_as_partial:
  "upload_face image_store_down
     (example_request ''tok-u1'' (PDict [(''image_data'', PStr ''aW1hZ2U='')]) [])
   = ((jsonify [(''success'', PBool False), (''error'', PStr ''bucket unavailable'')], 500),
      [VerifyToken ''tok-u1'', ValidateFaceQuality (PStr ''aW1hZ2U=''),
       EncodeFace (PStr ''aW1hZ2U=''),
       SaveFaceEncoding (PStr ''u1'') (PList [PInt 1, PInt 2]) (PBool False),
       UploadImage (PStr ''aW1hZ2U='') (PStr ''u1'') ''captured''])
   \<and> upload_face image_store_silent
     (example_request ''tok-u1'' (PDict [(''image_data'', PStr ''aW1hZ2U='')]) [])
   = ((jsonify [(''success'', PBool True),
                (''message'', PStr ''Face uploaded successfully''),
                (''encoding_saved'', PBool True),
                (''image_url'', PNone)], 200),
      [VerifyToken ''tok-u1'', ValidateFaceQuality (PStr ''aW1hZ2U=''),
       EncodeFace (PStr ''aW1hZ2U=''),
       SaveFaceEncoding (PStr ''u1'') (PList [PInt 1, PInt 2]) (PBool False),
       UploadImage (PStr ''aW1hZ2U='') (PStr ''u1'') ''captured''])"
proof -
  let ?req = "example_request ''tok-u1'' (PDict [(''image_data'', PStr ''aW1hZ2U='')]) []"
  let ?req' = "?req\<lparr>user_id := Some (PStr ''u1''), user_email := Some (PStr ''u1@example.org'')\<rparr>"
  have route: "upload_face svc ?req =
      (fst (upload_face_view svc ?req'), VerifyToken ''tok-u1'' # snd (upload_face_view svc ?req'))"
    if "svc = image_store_down \<or> svc = image_store_silent" for svc
    unfolding upload_face_def
    by (rule token_required_pass[where
          decoded = "PDict [(''uid'', PStr ''u1''), (''email'', PStr ''u1@example.org'')]"])
       (simp_all add: example_upload(1)[OF that])
  have down: "upload_face_view image_store_down ?req'
     = ((error_body ''bucket unavailable'', 500),
        [ValidateFaceQuality (PStr ''aW1hZ2U=''), EncodeFace (PStr ''aW1hZ2U=''),
         SaveFaceEncoding (PStr ''u1'') (PList [PInt 1, PInt 2]) (PBool False),
         UploadImage (PStr ''aW1hZ2U='') (PStr ''u1'') ''captured''])"
    by (simp add: upload_face_view_def upload_face_body_def image_store_down_def
        example_services_def)
  have silent: "upload_face_view image_store_silent ?req'
     = (ok (upload_success_body PNone),
        [ValidateFaceQuality (PStr ''aW1hZ2U=''), EncodeFace (PStr ''aW1hZ2U=''),
         SaveFaceEncoding (PStr ''u1'') (PList [PInt 1, PInt 2]) (PBool False),
         UploadImage (PStr ''aW1hZ2U='') (PStr ''u1'') ''captured''])"
    by (simp add: upload_face_view_def upload_face_body_def image_store_silent_def
        example_services_def upload_success_body_def)
  show ?thesis
    by (simp add: route down silent error_body_def upload_success_body_def ok_def)
qed

section \<open>The date filters of \<^verbatim>\<open>/attendance_records\<close>\<close>


lemma example_parser [simp]:
  "fromisoformat example_runtime (replace_Z ''tomorrow'')
     = Inl (ValueError (''Invalid isoformat string: '' @ quoted ''tomorrow''))"
  by (simp add: example_runtime_def replace_Z_def)




section \<open>Rounding to a double\<close>

text \<open>
  \<open>ilog2\<close> is the binary exponent of a positive rational; rounding half to even stays
  within a half of its argument; and rounding to a double keeps a non-negative value
  below the power of two it is below.
\<close>

lemma two_powi_less_iff: "(2::rat) powi m < 2 powi n \<longleftrightarrow> m < n"
  by (metis linorder_less_linear numeral_One numeral_less_iff
    order_less_imp_not_less power_int_strict_increasing
    semiring_norm(76))

lemma frac_upper:
  fixes a b :: rat
  assumes "a < 2 ^ la" "2 ^ lb1 \<le> b" "0 < a" "0 < b"
  shows "a / b < 2 ^ la / 2 ^ lb1"
  by (metis assms(1,2,3) divide_strict_right_mono frac_less2 less_eq_rat_def
    zero_less_numeral zero_less_power)

lemma frac_lower:
  fixes a b :: rat
  assumes "2 ^ la1 \<le> a" "b < 2 ^ lb" "0 < a" "0 < b"
  shows "2 ^ la1 / 2 ^ lb \<le> a / b"
  using assms by (intro frac_le) auto

lemma ilog2_bounds:
  assumes "0 < q"
  shows "2 powi (ilog2 q) \<le> q \<and> q < 2 powi (ilog2 q + 1)"
proof -
  obtain a b where ab: "quotient_of q = (a, b)" by (cases "quotient_of q")
  then have b: "0 < b" and q: "q = of_int a / of_int b"
    using quotient_of_denom_pos quotient_of_div by auto
  with assms have a: "0 < a" by (simp add: zero_less_divide_iff)
  define la lb where "la = nat (bitlen a)" and "lb = nat (bitlen b)"
  have la: "bitlen a = int la"
    using bitlen_nonneg[of a] unfolding la_def by simp
  have lb: "bitlen b = int lb"
    using bitlen_nonneg[of b] unfolding lb_def by simp
  have pos: "0 < la" "0 < lb"
    using a b bitlen_eq_zero_iff[of a] bitlen_eq_zero_iff[of b] la lb by linarith+
  have "nat (bitlen a - 1) = la - 1" "nat (bitlen b - 1) = lb - 1"
    unfolding la lb by simp_all
  with bitlen_bounds[OF a] bitlen_bounds[OF b]
  have a_bounds: "2 ^ (la - 1) \<le> a" "a < 2 ^ la"
    and b_bounds: "2 ^ (lb - 1) \<le> b" "b < 2 ^ lb"
    unfolding la_def lb_def by simp_all
  have ra: "(2::rat) ^ (la - 1) \<le> of_int a" "(of_int a :: rat) < 2 ^ la"
    using a_bounds by simp_all
  have rb: "(2::rat) ^ (lb - 1) \<le> of_int b" "(of_int b :: rat) < 2 ^ lb"
    using b_bounds by simp_all
  have rpos: "(0::rat) < of_int a" "(0::rat) < of_int b" using a b by simp_all
  have "q < 2 ^ la / 2 ^ (lb - 1)"
    unfolding q by (rule frac_upper[OF ra(2) rb(1) rpos])
  also have "\<dots> = 2 powi (int la - int (lb - 1))"
    by (simp add: power_int_diff)
  also have "int la - int (lb - 1) = int la - int lb + 1"
    using pos by simp
  finally have upper: "q < 2 powi (int la - int lb + 1)" .
  have "(2::rat) ^ (la - 1) / 2 ^ lb = 2 powi (int (la - 1) - int lb)"
    by (simp add: power_int_diff)
  also have "int (la - 1) - int lb = int la - int lb - 1"
    using pos by simp
  finally have "(2::rat) powi (int la - int lb - 1) = 2 ^ (la - 1) / 2 ^ lb" by simp
  also have "\<dots> \<le> q"
    unfolding q by (rule frac_lower[OF ra(1) rb(2) rpos])
  finally have lower: "2 powi (int la - int lb - 1) \<le> q" .
  have unfolded: "ilog2 q =
      (if 2 powi (int la - int lb) \<le> q then int la - int lb else int la - int lb - 1)"
    by (simp add: ilog2_def ab la lb)
  show ?thesis
  proof (cases "2 powi (int la - int lb) \<le> q")
    case True
    then show ?thesis using upper by (simp add: unfolded)
  next
    case False
    then show ?thesis using lower by (simp add: unfolded)
  qed
qed

lemma ilog2_eq:
  assumes "2 powi e \<le> q" "q < 2 powi (e + 1)"
  shows "ilog2 q = e"
proof -
  have "(0::rat) < 2 powi e" by simp
  with assms(1) have "0 < q" by linarith
  from ilog2_bounds[OF this] assms
  have "2 powi (ilog2 q) < (2::rat) powi (e + 1)" "(2::rat) powi e < 2 powi (ilog2 q + 1)"
    by linarith+
  then show ?thesis unfolding two_powi_less_iff by simp
qed

lemma round_half_even_near:
  "of_int (round_half_even q) \<le> q + 1 / 2 \<and> q - 1 / 2 \<le> of_int (round_half_even q)"
proof -
  define f where "f = \<lfloor>q\<rfloor>"
  define d where "d = q - of_int f"
  have d: "0 \<le> d" "d < 1" unfolding d_def f_def by linarith+
  have q: "q = of_int f + d" by (simp add: d_def)
  have r: "round_half_even q =
      (if d < 1 / 2 then f else if 1 / 2 < d then f + 1 else if even f then f else f + 1)"
    by (simp add: round_half_even_def Let_def f_def d_def)
  show ?thesis
    unfolding r using d q by (cases "d < 1 / 2"; cases "1 / 2 < d"; cases "even f") simp_all
qed

lemma round_half_even_le:
  assumes "q \<le> of_int n"
  shows "round_half_even q \<le> n"
proof -
  have "(of_int (round_half_even q) :: rat) \<le> of_int n + 1 / 2"
    using round_half_even_near[of q] assms by linarith
  then have "(of_int (round_half_even q) :: rat) < of_int (n + 1)" by simp
  then have "round_half_even q < n + 1" by (simp only: of_int_less_iff)
  then show ?thesis by simp
qed

lemma round_half_even_nonneg:
  assumes "0 \<le> q"
  shows "0 \<le> round_half_even q"
proof -
  have "(of_int (- 1) :: rat) < of_int (round_half_even q)"
    using round_half_even_near[of q] assms by simp
  then have "- 1 < round_half_even q" by (simp only: of_int_less_iff)
  then show ?thesis by simp
qed

lemma round_half_even_eq:
  assumes "of_int n - 1 / 2 < q" "q < of_int n + 1 / 2"
  shows "round_half_even q = n"
proof -
  have "(of_int (round_half_even q) :: rat) < of_int (n + 1)"
    "(of_int (n - 1) :: rat) < of_int (round_half_even q)"
    using round_half_even_near[of q] assms by simp_all
  then have "round_half_even q < n + 1" "n - 1 < round_half_even q"
    by (simp_all only: of_int_less_iff)
  then show ?thesis by simp
qed

lemma round_to_double_eq:
  assumes "2 powi e \<le> \<bar>q\<bar>" "\<bar>q\<bar> < 2 powi (e + 1)" "- 1022 \<le> e"
  shows "round_to_double q = of_int (round_half_even (q / 2 powi (e - 52))) * 2 powi (e - 52)"
proof -
  have "(0::rat) < 2 powi e" by simp
  with assms(1) have "0 < \<bar>q\<bar>" by linarith
  then have "q \<noteq> 0" by simp
  moreover have "max (ilog2 \<bar>q\<bar>) (- 1022) = e"
    using ilog2_eq[OF assms(1,2)] assms(3) by simp
  ultimately show ?thesis by (simp add: round_to_double_def Let_def)
qed

lemma round_to_double_bounds:
  assumes "0 \<le> q" "q \<le> 2 powi k" "- 1022 \<le> k"
  shows "0 \<le> round_to_double q \<and> round_to_double q \<le> 2 powi k"
proof (cases "q = 0")
  case True
  then show ?thesis by (simp add: round_to_double_def)
next
  case False
  with assms(1) have pos: "0 < q" by simp
  define e where "e = max (ilog2 q) (- 1022)"
  define ulp :: rat where "ulp = 2 powi (e - 52)"
  have ulp_pos: "0 < ulp" by (simp add: ulp_def)
  have "2 powi (ilog2 q) \<le> (2::rat) powi k"
    using ilog2_bounds[OF pos] assms(2) by linarith
  then have "ilog2 q \<le> k"
    using two_powi_less_iff[of k "ilog2 q"] by (simp add: not_less[symmetric])
  then have ek: "e \<le> k" using assms(3) by (simp add: e_def)
  define n where "n = nat (k - e + 52)"
  have n: "int n = k - e + 52" using ek by (simp add: n_def)
  have "(2::rat) powi k = 2 powi (int n + (e - 52))" by (simp add: n)
  also have "\<dots> = 2 powi (int n) * ulp"
    unfolding ulp_def by (rule power_int_add) simp
  finally have k: "(2::rat) powi k = of_int (2 ^ n) * ulp" by simp
  have "q / ulp \<le> of_int (2 ^ n)"
    using assms(2) ulp_pos unfolding k by (simp add: field_simps)
  then have hi: "round_half_even (q / ulp) \<le> 2 ^ n" by (rule round_half_even_le)
  have "0 \<le> q / ulp" using pos ulp_pos by simp
  then have lo: "0 \<le> round_half_even (q / ulp)" by (rule round_half_even_nonneg)
  have r: "round_to_double q = of_int (round_half_even (q / ulp)) * ulp"
    using False pos by (simp add: round_to_double_def e_def ulp_def Let_def)
  have "of_int (round_half_even (q / ulp)) * ulp \<le> of_int (2 ^ n) * ulp"
    using hi ulp_pos by (simp only: mult_le_cancel_right_pos of_int_le_iff)
  moreover have "0 \<le> of_int (round_half_even (q / ulp)) * ulp"
    using lo ulp_pos by simp
  ultimately show ?thesis unfolding r k by simp
qed

text \<open>
  The length of a list is below \<open>2 ^ 63\<close>. For such counts the division, the
  multiplication and the rounding of the attendance rate all return.
\<close>

lemma int_truediv_lengths:
  assumes "0 < t" "p < 2 ^ 63"
  shows "\<exists>r. int_truediv (int p) (int t) = Inr (Finite r) \<and> 0 \<le> r \<and> r \<le> 2 powi 63"
proof -
  let ?q = "of_int (int p) / of_int (int t) :: rat"
  have "?q \<le> of_nat p"
    using assms(1) by (simp add: field_simps mult_le_cancel_left1)
  also have "\<dots> \<le> 2 ^ 63" using assms(2)
    by (metis less_imp_le of_nat_le_iff of_nat_numeral of_nat_power)
  finally have "?q \<le> 2 powi 63" by simp
  moreover have "0 \<le> ?q" by simp
  ultimately have b: "0 \<le> round_to_double ?q" "round_to_double ?q \<le> 2 powi 63"
    using round_to_double_bounds[of ?q 63] by simp_all
  have "(2::rat) powi 63 < 2 powi 1024" unfolding two_powi_less_iff by simp
  then have "\<not> 2 ^ 1024 \<le> \<bar>round_to_double ?q\<bar>" using b by simp
  then show ?thesis
    using assms(1) b by (simp add: int_truediv_def Let_def)
qed

lemma float_mul_100:
  assumes "0 \<le> r" "r \<le> 2 powi 63"
  shows "\<exists>u. float_mul (Finite r) (Finite 100) = Finite u \<and> 0 \<le> u \<and> u \<le> 2 powi 70"
proof -
  have "r * 100 \<le> 2 powi 63 * 2 powi 7" using assms by (intro mult_mono) simp_all
  also have "\<dots> = (2::rat) powi 70" by (simp add: power_int_add[symmetric])
  finally have "r * 100 \<le> 2 powi 70" .
  moreover have "0 \<le> r * 100" using assms(1) by simp
  ultimately have b: "0 \<le> round_to_double (r * 100)" "round_to_double (r * 100) \<le> 2 powi 70"
    using round_to_double_bounds[of "r * 100" 70] by simp_all
  have "(2::rat) powi 70 < 2 powi 1024" unfolding two_powi_less_iff by simp
  then have "\<not> 2 ^ 1024 \<le> round_to_double (r * 100)" using b by simp
  moreover have "\<not> round_to_double (r * 100) \<le> - (2 ^ 1024)" using b(1) by simp
  ultimately show ?thesis using b by (simp add: float_mul_def Let_def)
qed

lemma float_round_2:
  assumes "0 \<le> u" "u \<le> 2 powi 70"
  shows "\<exists>r. float_round (Finite u) 2 = Inr (Finite r)"
proof -
  let ?d = "of_int (round_half_even (u * 10 ^ 2)) / 10 ^ 2 :: rat"
  have "of_int (round_half_even (u * 10 ^ 2)) \<le> u * 10 ^ 2 + 1 / 2"
    using round_half_even_near[of "u * 10 ^ 2"] by simp
  then have "?d \<le> u + 1" by (simp add: field_simps)
  also have "\<dots> \<le> 2 powi 70 + 2 powi 70" using assms(2) by simp
  also have "\<dots> = (2::rat) powi 71" by simp
  finally have "?d \<le> 2 powi 71" .
  moreover have "0 \<le> ?d" using round_half_even_nonneg[of "u * 10 ^ 2"] assms(1) by simp
  ultimately have b: "0 \<le> round_to_double ?d" "round_to_double ?d \<le> 2 powi 71"
    using round_to_double_bounds[of ?d 71] by simp_all
  have "(2::rat) powi 71 < 2 powi 1024" unfolding two_powi_less_iff by simp
  then have "\<not> 2 ^ 1024 \<le> \<bar>round_to_double ?d\<bar>" using b by simp
  then show ?thesis by (simp add: float_round_def Let_def)
qed

lemma rate_of_lengths:
  assumes "0 < t" "p < 2 ^ 63"
  shows "\<exists>q r. int_truediv (int p) (int t) = Inr q
           \<and> float_round (float_mul q (Finite 100)) 2 = Inr r"
proof -
  from int_truediv_lengths[OF assms] obtain x
    where x: "int_truediv (int p) (int t) = Inr (Finite x)" "0 \<le> x" "x \<le> 2 powi 63"
    by blast
  from float_mul_100[OF x(2,3)] obtain u
    where u: "float_mul (Finite x) (Finite 100) = Finite u" "0 \<le> u" "u \<le> 2 powi 70"
    by blast
  from float_round_2[OF u(2,3)] obtain r where "float_round (Finite u) 2 = Inr (Finite r)"
    by blast
  with x(1) u(1) show ?thesis by simp
qed

text \<open>
  One present of three users: \<^verbatim>\<open>1 / 3\<close> is the double \<^verbatim>\<open>0.3333333333333333\<close>, times
  100 is \<^verbatim>\<open>33.33333333333333\<close>, and rounded to two decimals \<^verbatim>\<open>33.33\<close>; the three
  doubles are given exactly.
\<close>

lemma round_to_double_value:
  assumes "2 powi e \<le> \<bar>q\<bar>" "\<bar>q\<bar> < 2 powi (e + 1)" "- 1022 \<le> e"
    and "of_int n - 1 / 2 < q / 2 powi (e - 52)" "q / 2 powi (e - 52) < of_int n + 1 / 2"
  shows "round_to_double q = of_int n * 2 powi (e - 52)"
  unfolding round_to_double_eq[OF assms(1-3)] round_half_even_eq[OF assms(4,5)] ..

lemma example_rate:
  "int_truediv 1 3 = Inr (Finite (6004799503160661 / 18014398509481984))"
  "float_mul (Finite (6004799503160661 / 18014398509481984)) (Finite 100)
     = Finite (2345624805922133 / 70368744177664)"
  "float_round (Finite (2345624805922133 / 70368744177664)) 2
     = Inr (Finite (2345390243441541 / 70368744177664))"
proof -
  have a: "round_to_double (1 / 3) = 6004799503160661 / 18014398509481984"
    using round_to_double_value[of "- 2" "1 / 3" 6004799503160661] by simp
  show "int_truediv 1 3 = Inr (Finite (6004799503160661 / 18014398509481984))"
    by (simp add: int_truediv_def a)
  have b: "round_to_double (150119987579016525 / 4503599627370496)
      = 2345624805922133 / 70368744177664"
    using round_to_double_value[of 5 "150119987579016525 / 4503599627370496" 4691249611844266]
    by simp
  show "float_mul (Finite (6004799503160661 / 18014398509481984)) (Finite 100)
     = Finite (2345624805922133 / 70368744177664)"
    by (simp add: float_mul_def b)
  have c: "round_half_even (58640620148053325 / 17592186044416) = 3333"
    by (rule round_half_even_eq) simp_all
  have d: "round_to_double (3333 / 100) = 2345390243441541 / 70368744177664"
    using round_to_double_value[of 5 "3333 / 100" 4690780486883082] by simp
  show "float_round (Finite (2345624805922133 / 70368744177664)) 2
     = Inr (Finite (2345390243441541 / 70368744177664))"
    by (simp add: float_round_def c d)
qed

section \<open>The attendance rate of \<^verbatim>\<open>/system_stats\<close>\<close>

lemma attendance_rate_no_users: "attendance_rate present_today 0 = Inr (PInt 0)"
  by (simp add: attendance_rate_def)

lemma attendance_rate_never_divides_by_zero:
  "attendance_rate present_today total_users \<noteq> Inl (ZeroDivisionError m)"
  by (auto simp: attendance_rate_def int_truediv_def Let_def split: sum.splits if_splits)

lemma attendance_rate_users:
  "0 < total_users \<Longrightarrow> int_truediv (int present_today) (int total_users) = Inr q \<Longrightarrow>
     attendance_rate present_today total_users = Inr (PFloat (float_mul q (Finite 100)))"
  by (simp add: attendance_rate_def)

lemma get_system_stats_view_counts:
  assumes "add_one_day (midnight (now rt 0)) = Inr today_end"
    and "fb_get_attendance_records svc (Date (midnight (now rt 0))) (Date today_end)
           = Inr today_records"
    and "fb_get_all_users svc = Inr users" "py_len users = Inr total_users"
    and "py_iter today_records = Inr rs" "present_records rs = Inr present"
  shows "get_system_stats_view rt svc req =
           (case attendance_rate (length present) total_users of
              Inl e \<Rightarrow> server_error e
            | Inr rate \<Rightarrow>
                (case py_round rate 2 of
                   Inl e \<Rightarrow> server_error e
                 | Inr rounded \<Rightarrow>
                     (PDict [(''success'', PBool True),
                                  (''stats'', PDict [(''total_users'', PInt (int total_users)),
                                                     (''present_today'', PInt (int (length present))),
                                                     (''attendance_rate'', rounded),
                                                     (''system_status'', PStr ''online''),
                                                     (''last_updated'', PStr (isoformat rt (now rt 1)))])], 200)),
            [GetAttendanceRecords (Date (midnight (now rt 0))) (Date today_end), GetAllUsers])"
  using assms
  by (simp add: get_system_stats_view_def get_system_stats_body_def Let_def server_error_def
      ok_def jsonify_def split: sum.splits)

lemma example_today [simp]:
  "add_one_day (midnight (now example_runtime 0))
     = Inr (example_datetime\<lparr>ordinal := 738887, hour := 0\<rparr>)"
  by (simp add: add_one_day_def midnight_def example_runtime_def example_datetime_def
      max_ordinal_def)

lemma example_records [simp]:
  "fb_get_attendance_records example_services start_date end_date
     = Inr (PList [PDict [(''user_id'', PStr ''u1''), (''status'', PStr ''present'')],
                   PDict [(''user_id'', PStr ''u2''), (''status'', PStr ''rejected'')]])"
  "fb_get_all_users example_services = Inr (PList [PStr ''u1'', PStr ''u2'', PStr ''u3''])"
  by (simp_all add: example_services_def)

lemma example_stats_view:
  "get_system_stats_view example_runtime example_services req
     = ((PDict [(''success'', PBool True),
                     (''stats'', PDict [(''total_users'', PInt 3),
                                        (''present_today'', PInt 1),
                                        (''attendance_rate'', (PFloat (Finite (2345390243441541 / 70368744177664)))),
                                        (''system_status'', PStr ''online''),
                                        (''last_updated'', PStr (isoformat example_runtime (now example_runtime 1)))])], 200),
        [GetAttendanceRecords (Date (midnight (now example_runtime 0)))
           (Date (example_datetime\<lparr>ordinal := 738887, hour := 0\<rparr>)),
         GetAllUsers])"
proof -
  have rate: "attendance_rate (Suc 0) 3
      = Inr (PFloat (Finite (2345624805922133 / 70368744177664)))"
    by (simp add: attendance_rate_def example_rate)
  show ?thesis
    unfolding get_system_stats_view_counts[OF example_today example_records(1)
        example_records(2),
        of 3 "[PDict [(''user_id'', PStr ''u1''), (''status'', PStr ''present'')],
               PDict [(''user_id'', PStr ''u2''), (''status'', PStr ''rejected'')]]"
           "[PDict [(''user_id'', PStr ''u1''), (''status'', PStr ''present'')]]", simplified]
    by (simp add: rate example_rate)
qed

text \<open>
  C8, as the code has it. For a request that passes the admin gate and whose reads of
  today's records and of the users succeed, with \<open>total_users\<close> users and the list
  \<open>present\<close> of today's present records: with no users the response is the 200 whose
  rate is the int 0; with users (and a count of present records that a list can have)
  the rate computed is \<^verbatim>\<open>present_today / total_users * 100\<close> in double arithmetic, and
  the response is the 200 that reports this rate rounded to two decimals; and the
  computation of the rate never raises \<^verbatim>\<open>ZeroDivisionError\<close>.
\<close>

theorem reported_attendance_rate:
  assumes token: "bearer_token req = Some token" "token \<noteq> []"
    and verified: "fb_verify_token svc token = Inr decoded" "truthy decoded"
      "py_subscript decoded ''uid'' = Inr uid" "py_subscript decoded ''email'' = Inr email"
    and admin: "sb_get_user_data svc uid = Inr (PDict ukvs)"
      "map_of ukvs ''role'' = Some (PStr ''admin'')"
    and today: "add_one_day (midnight (now rt 0)) = Inr today_end"
    and records: "fb_get_attendance_records svc (Date (midnight (now rt 0))) (Date today_end)
           = Inr today_records" "py_iter today_records = Inr rs"
      "present_records rs = Inr present"
    and users: "fb_get_all_users svc = Inr users" "py_len users = Inr total_users"
  shows "(total_users = 0 \<longrightarrow>
           fst (get_system_stats rt svc req)
             = (PDict [(''success'', PBool True),
                            (''stats'', PDict [(''total_users'', PInt 0),
                                               (''present_today'', PInt (int (length present))),
                                               (''attendance_rate'', (PInt 0)),
                                               (''system_status'', PStr ''online''),
                                               (''last_updated'', PStr (isoformat rt (now rt 1)))])], 200))
       \<and> (0 < total_users \<and> length present < 2 ^ 63 \<longrightarrow>
           (\<exists>q r. int_truediv (int (length present)) (int total_users) = Inr q
              \<and> float_round (float_mul q (Finite 100)) 2 = Inr r
              \<and> attendance_rate (length present) total_users
                  = Inr (PFloat (float_mul q (Finite 100)))
              \<and> fst (get_system_stats rt svc req)
                  = (PDict [(''success'', PBool True),
                                 (''stats'', PDict [(''total_users'', PInt (int total_users)),
                                                    (''present_today'', PInt (int (length present))),
                                                    (''attendance_rate'', (PFloat r)),
                                                    (''system_status'', PStr ''online''),
                                                    (''last_updated'', PStr (isoformat rt (now rt 1)))])], 200)))
       \<and> attendance_rate (length present) total_users \<noteq> Inl (ZeroDivisionError m)"
proof -
  let ?req = "req\<lparr>user_id := Some uid, user_email := Some email\<rparr>"
  have route: "fst (get_system_stats rt svc req) = fst (get_system_stats_view rt svc ?req)"
    unfolding get_system_stats_def admin_required_pass[OF token verified admin] by simp
  note view = get_system_stats_view_counts[OF today records(1) users records(2,3), of ?req]
  have none: "fst (get_system_stats rt svc req)
             = (PDict [(''success'', PBool True),
                            (''stats'', PDict [(''total_users'', PInt 0),
                                               (''present_today'', PInt (int (length present))),
                                               (''attendance_rate'', (PInt 0)),
                                               (''system_status'', PStr ''online''),
                                               (''last_updated'', PStr (isoformat rt (now rt 1)))])], 200)"
    if "total_users = 0"
    unfolding route view using that by (simp add: attendance_rate_no_users)
  have some: "\<exists>q r. int_truediv (int (length present)) (int total_users) = Inr q
              \<and> float_round (float_mul q (Finite 100)) 2 = Inr r
              \<and> attendance_rate (length present) total_users
                  = Inr (PFloat (float_mul q (Finite 100)))
              \<and> fst (get_system_stats rt svc req)
                  = (PDict [(''success'', PBool True),
                                 (''stats'', PDict [(''total_users'', PInt (int total_users)),
                                                    (''present_today'', PInt (int (length present))),
                                                    (''attendance_rate'', (PFloat r)),
                                                    (''system_status'', PStr ''online''),
                                                    (''last_updated'', PStr (isoformat rt (now rt 1)))])], 200)"
    if "0 < total_users \<and> length present < 2 ^ 63"
  proof -
    from that rate_of_lengths[of total_users "length present"] obtain q r
      where qr: "int_truediv (int (length present)) (int total_users) = Inr q"
        "float_round (float_mul q (Finite 100)) 2 = Inr r"
      by blast
    have rate: "attendance_rate (length present) total_users
        = Inr (PFloat (float_mul q (Finite 100)))"
      using that qr(1) by (simp add: attendance_rate_users)
    have "fst (get_system_stats rt svc req)
        = (PDict [(''success'', PBool True),
                       (''stats'', PDict [(''total_users'', PInt (int total_users)),
                                          (''present_today'', PInt (int (length present))),
                                          (''attendance_rate'', (PFloat r)),
                                          (''system_status'', PStr ''online''),
                                          (''last_updated'', PStr (isoformat rt (now rt 1)))])], 200)"
      unfolding route view by (simp add: rate qr(2))
    with qr rate show ?thesis by blast
  qed
  show ?thesis
    using none some attendance_rate_never_divides_by_zero by blast
qed

text \<open>The theorem with no user, and with one present of three users.\<close>

theorem reported_attendance_rate_witness:
  "fst (get_system_stats example_runtime no_users (example_request ''tok-admin'' PNone []))
     = (PDict [(''success'', PBool True),
                    (''stats'', PDict [(''total_users'', PInt 0),
                                       (''present_today'', PInt 1),
                                       (''attendance_rate'', (PInt 0)),
                                       (''system_status'', PStr ''online''),
                                       (''last_updated'', PStr (isoformat example_runtime (now example_runtime 1)))])], 200)
   \<and> fst (get_system_stats example_runtime example_services
            (example_request ''tok-admin'' PNone []))
     = (PDict [(''success'', PBool True),
                    (''stats'', PDict [(''total_users'', PInt 3),
                                       (''present_today'', PInt 1),
                                       (''attendance_rate'', (PFloat (Finite (2345390243441541 / 70368744177664)))),
                                       (''system_status'', PStr ''online''),
                                       (''last_updated'', PStr (isoformat example_runtime (now example_runtime 1)))])], 200)"
proof -
  let ?req = "example_request ''tok-admin'' PNone []"
  let ?rs = "[PDict [(''user_id'', PStr ''u1''), (''status'', PStr ''present'')],
              PDict [(''user_id'', PStr ''u2''), (''status'', PStr ''rejected'')]]"
  let ?present = "[PDict [(''user_id'', PStr ''u1''), (''status'', PStr ''present'')]]"
  have svc: "fb_verify_token no_users ''tok-admin''
      = Inr (PDict [(''uid'', PStr ''admin1''), (''email'', PStr ''admin1@example.org'')])"
    "sb_get_user_data no_users (PStr ''admin1'') = Inr (PDict [(''role'', PStr ''admin'')])"
    "fb_get_attendance_records no_users s e = Inr (PList ?rs)"
    "fb_get_all_users no_users = Inr (PList [])" for s e
    by (simp_all add: no_users_def example_services_def)
  have present: "present_records ?rs = Inr ?present" by simp
  have a: "fst (get_system_stats example_runtime no_users ?req)
     = (PDict [(''success'', PBool True),
                    (''stats'', PDict [(''total_users'', PInt 0),
                                       (''present_today'', PInt 1),
                                       (''attendance_rate'', (PInt 0)),
                                       (''system_status'', PStr ''online''),
                                       (''last_updated'', PStr (isoformat example_runtime (now example_runtime 1)))])], 200)"
    using reported_attendance_rate[where rt = example_runtime and svc = no_users
        and req = ?req and token = "''tok-admin''" and uid = "PStr ''admin1''"
        and email = "PStr ''admin1@example.org''"
        and decoded = "PDict [(''uid'', PStr ''admin1''), (''email'', PStr ''admin1@example.org'')]"
        and ukvs = "[(''role'', PStr ''admin'')]"
        and today_end = "example_datetime\<lparr>ordinal := 738887, hour := 0\<rparr>"
        and today_records = "PList ?rs" and rs = ?rs and present = ?present
        and users = "PList []" and total_users = 0]
    by (simp add: svc)
  have "\<exists>q r. int_truediv 1 3 = Inr q
      \<and> float_round (float_mul q (Finite 100)) 2 = Inr r
      \<and> fst (get_system_stats example_runtime example_services ?req)
         = (PDict [(''success'', PBool True),
                        (''stats'', PDict [(''total_users'', PInt 3),
                                           (''present_today'', PInt 1),
                                           (''attendance_rate'', (PFloat r)),
                                           (''system_status'', PStr ''online''),
                                           (''last_updated'', PStr (isoformat example_runtime (now example_runtime 1)))])], 200)"
    using reported_attendance_rate[where rt = example_runtime and svc = example_services
        and m = "[]"
        and req = ?req and token = "''tok-admin''" and uid = "PStr ''admin1''"
        and email = "PStr ''admin1@example.org''"
        and decoded = "PDict [(''uid'', PStr ''admin1''), (''email'', PStr ''admin1@example.org'')]"
        and ukvs = "[(''role'', PStr ''admin'')]"
        and today_end = "example_datetime\<lparr>ordinal := 738887, hour := 0\<rparr>"
        and today_records = "PList ?rs" and rs = ?rs and present = ?present
        and users = "PList [PStr ''u1'', PStr ''u2'', PStr ''u3'']" and total_users = 3]
    by auto
  then obtain q r where qr: "int_truediv 1 3 = Inr q"
      "float_round (float_mul q (Finite 100)) 2 = Inr r"
      "fst (get_system_stats example_runtime example_services ?req)
         = (PDict [(''success'', PBool True),
                        (''stats'', PDict [(''total_users'', PInt 3),
                                           (''present_today'', PInt 1),
                                           (''attendance_rate'', (PFloat r)),
                                           (''system_status'', PStr ''online''),
                                           (''last_updated'', PStr (isoformat example_runtime (now example_runtime 1)))])], 200)"
    by blast
  have "q = Finite (6004799503160661 / 18014398509481984)"
    using qr(1) by (simp add: example_rate)
  then have "r = Finite (2345390243441541 / 70368744177664)"
    using qr(2) by (simp add: example_rate)
  with qr(3) a show ?thesis by simp
qed

text \<open>
  C8 as stated fails for one present of three users: the rate computed is the double
  \<^verbatim>\<open>33.33333333333333\<close>, and the rate in the response is the smaller double
  \<^verbatim>\<open>33.33\<close>.
\<close>

theorem rate_is_reported_rounded:
  "fst (get_system_stats example_runtime example_services
          (example_request ''tok-admin'' PNone []))
     = (PDict [(''success'', PBool True),
                    (''stats'', PDict [(''total_users'', PInt 3),
                                       (''present_today'', PInt 1),
                                       (''attendance_rate'', (PFloat (Finite (2345390243441541 / 70368744177664)))),
                                       (''system_status'', PStr ''online''),
                                       (''last_updated'', PStr (isoformat example_runtime (now example_runtime 1)))])], 200)
   \<and> attendance_rate 1 3 = Inr (PFloat (Finite (2345624805922133 / 70368744177664)))
   \<and> (2345390243441541 / 70368744177664 :: rat) < 2345624805922133 / 70368744177664"
proof -
  let ?req = "example_request ''tok-admin'' PNone []"
  let ?req' = "?req\<lparr>user_id := Some (PStr ''admin1''),
                        user_email := Some (PStr ''admin1@example.org'')\<rparr>"
  have "get_system_stats example_runtime example_services ?req
      = (fst (get_system_stats_view example_runtime example_services ?req'),
         VerifyToken ''tok-admin'' # GetUserData (PStr ''admin1'')
           # snd (get_system_stats_view example_runtime example_services ?req'))"
    unfolding get_system_stats_def
    by (rule admin_required_pass[where ukvs = "[(''role'', PStr ''admin'')]" and
          decoded = "PDict [(''uid'', PStr ''admin1''), (''email'', PStr ''admin1@example.org'')]"])
       simp_all
  then have route: "fst (get_system_stats example_runtime example_services ?req)
      = fst (get_system_stats_view example_runtime example_services ?req')"
    by simp
  have rate: "attendance_rate 1 3 = Inr (PFloat (Finite (2345624805922133 / 70368744177664)))"
    by (simp add: attendance_rate_def example_rate)
  show ?thesis
    unfolding route example_stats_view using rate by simp
qed

end
